theory Spec2Isabelle
  imports Main "HOL-Library.Word"
begin

section \<open>The object model of the tree-sitter Python binding (binding.c)\<close>

text \<open>
  The binding wraps an incremental parsing engine. Its five object types are C structs
  allocated on the Python heap; several of them point at each other (a Node and a
  TreeCursor point at their Tree, a TreeCursor points at its cached Node, a Node at its
  cached list of children), and some of them are updated in place. The model therefore
  keeps an explicit store: one memory per object type, indexed by address, and every
  method takes the store and returns the updated one.

  A C pointer that may be \<open>NULL\<close> is an \<open>option\<close>. Reference counts and allocation
  failure are not modelled: every allocation succeeds and nothing is ever freed.
\<close>

type_synonym addr = nat

subsection \<open>Engine data (tree_sitter/api.h)\<close>

text \<open>
  Modelled from the spec: the engine's data types and primitives of section 6 (the header
  tree_sitter/api.h and the engine library are not among the sources). A parse result is a
  finite ordered tree of syntax elements; a position in it is the list of child indices
  leading from the root to the element. The engine's handle \<open>TSNode\<close> holds the parse
  result it points into and the identity of the element (\<open>NULL\<close> for the null node).
\<close>

record TSPoint =
  row :: "32 word"
  column :: "32 word"

datatype ts_subtree =
  Subtree (sub_type: string) (sub_named: bool)
          (sub_start_byte: "32 word") (sub_end_byte: "32 word")
          (sub_start_point: TSPoint) (sub_end_point: TSPoint)
          (sub_children: "ts_subtree list")

record TSNode =
  tsn_id :: "nat list option"
  tsn_tree :: addr

record TSTreeCursor =
  tc_tree :: addr
  tc_root :: "nat list option"
  tc_stack :: "nat list"

record TSInputEdit =
  start_byte :: "32 word"
  old_end_byte :: "32 word"
  new_end_byte :: "32 word"
  start_point :: TSPoint
  old_end_point :: TSPoint
  new_end_point :: TSPoint

record TSParser =
  tsp_language :: "addr option"

record TSQueryCapture =
  cap_node :: TSNode
  cap_index :: nat

record TSQueryCursor =
  qc_pending :: "TSQueryCapture list"
  qc_range :: "(TSPoint \<times> TSPoint) option"

datatype TSQueryError =
  TSQueryErrorNone | TSQueryErrorSyntax | TSQueryErrorNodeType
| TSQueryErrorField | TSQueryErrorCapture

subsection \<open>Python values and exceptions\<close>

text \<open>
  Immutable Python values are carried by value; the binding's own objects and lists are
  references into the store, tagged with their type, so that \<open>PyObject_IsInstance\<close> is a
  test on the tag. \<open>PyInstance\<close> is an ordinary Python object given by its attributes
  (the pure-Python \<open>Language\<close> class is one, with the attribute \<open>language_id\<close>).
\<close>

datatype pyval =
  PyNone
| PyBool bool
| PyLong int
| PyBytes string
| PyUnicode string
| PyMemoryView string
| PyTuple "pyval list"
| PyInstance "(string \<times> pyval) list"
| PyList addr
| PyNode addr
| PyTree addr
| PyTreeCursor addr
| PyParser addr
| PyQuery addr

text \<open>
  \<open>PyErr_Format\<close> is kept as the format string with its arguments, in order. A
  \<open>SystemError\<close> is raised by the interpreter, not by the binding; it carries its message
  and the exception it was raised from, if any.
\<close>

datatype fmt_arg = ArgU nat | ArgS string

datatype pyerr =
  ValueError string "fmt_arg list"
| TypeError string "fmt_arg list"
| RuntimeError string "fmt_arg list"
| NameError string "fmt_arg list"
| SyntaxError string "fmt_arg list"
| NotImplementedError string "fmt_arg list"
| IndexError string "fmt_arg list"
| SystemError string "pyerr option"

type_synonym 'a result = "pyerr + 'a"

datatype cmp_op = Py_LT | Py_LE | Py_EQ | Py_NE | Py_GT | Py_GE

subsection \<open>The binding's structs and the store\<close>

record Node =
  node_node :: TSNode
  node_children :: "addr option"
  node_tree :: "addr option"

record Tree =
  tree_tree :: addr
  tree_source :: "pyval option"
  tree_edited :: int

record Parser =
  parser_parser :: TSParser

record TreeCursor =
  cursor_cursor :: TSTreeCursor
  cursor_node :: "addr option"
  cursor_tree :: "addr option"

record Query =
  query_query :: "addr option"
  query_capture_names :: "addr option"

text \<open>
  The store. \<open>ts_trees\<close> is the engine's memory of parse results (\<open>TSTree *\<close>) and
  \<open>ts_queries\<close> its memory of compiled queries (\<open>TSQuery *\<close>), each given by its table
  of capture names; \<open>default_cursor\<close> and \<open>query_cursor\<close> are the two file-level
  variables of binding.c. The query cursor, once executed, holds the captures it has
  still to report, and the point range the engine was told to search (none: everything).
  \<open>next_addr\<close> is the allocator: every address from it on is unused.
\<close>

record store =
  nodes :: "addr \<Rightarrow> Node"
  trees :: "addr \<Rightarrow> Tree"
  parsers :: "addr \<Rightarrow> Parser"
  cursors :: "addr \<Rightarrow> TreeCursor"
  queries :: "addr \<Rightarrow> Query"
  lists :: "addr \<Rightarrow> pyval option list"
  ts_trees :: "addr \<Rightarrow> ts_subtree option"
  ts_queries :: "addr \<Rightarrow> string list"
  default_cursor :: TSTreeCursor
  query_cursor :: "TSQueryCursor option"
  next_addr :: addr

subsection \<open>Engine primitives on nodes\<close>

text \<open>
  Modelled from the spec: node introspection and equality (section 6). Two engine nodes
  are equal when they lie in the same parse result and identify the same element.
\<close>

fun subtree_at :: "ts_subtree \<Rightarrow> nat list \<Rightarrow> ts_subtree option" where
  "subtree_at t [] = Some t"
| "subtree_at t (i # p) =
     (if i < length (sub_children t) then subtree_at (sub_children t ! i) p else None)"

definition ts_node_subtree :: "store \<Rightarrow> TSNode \<Rightarrow> ts_subtree option" where
  "ts_node_subtree s n =
     (case tsn_id n of
        None \<Rightarrow> None
      | Some p \<Rightarrow> (case ts_trees s (tsn_tree n) of
                    None \<Rightarrow> None
                  | Some r \<Rightarrow> subtree_at r p))"

definition ts_node_eq :: "TSNode \<Rightarrow> TSNode \<Rightarrow> bool" where
  "ts_node_eq a b = (tsn_tree a = tsn_tree b \<and> tsn_id a = tsn_id b)"

definition ts_node_is_null :: "TSNode \<Rightarrow> bool" where
  "ts_node_is_null n = (tsn_id n = None)"

definition ts_node_child_count :: "store \<Rightarrow> TSNode \<Rightarrow> nat" where
  "ts_node_child_count s n =
     (case ts_node_subtree s n of None \<Rightarrow> 0 | Some t \<Rightarrow> length (sub_children t))"

definition ts_node_start_byte :: "store \<Rightarrow> TSNode \<Rightarrow> 32 word" where
  "ts_node_start_byte s n =
     (case ts_node_subtree s n of None \<Rightarrow> 0 | Some t \<Rightarrow> sub_start_byte t)"

definition ts_node_end_byte :: "store \<Rightarrow> TSNode \<Rightarrow> 32 word" where
  "ts_node_end_byte s n =
     (case ts_node_subtree s n of None \<Rightarrow> 0 | Some t \<Rightarrow> sub_end_byte t)"

subsection \<open>Node: construction and comparison\<close>

text \<open>
  \<open>node_new_internal\<close> allocates a Node holding the engine node and the pointer to the
  Tree, with no cached children.
\<close>

definition node_new_internal :: "store \<Rightarrow> TSNode \<Rightarrow> addr option \<Rightarrow> addr \<times> store" where
  "node_new_internal s node tree =
     (let self = next_addr s in
      (self,
       s\<lparr>nodes := (nodes s)(self := \<lparr>node_node = node, node_children = None, node_tree = tree\<rparr>),
         next_addr := Suc self\<rparr>))"

definition node_is_instance :: "pyval \<Rightarrow> bool" where
  "node_is_instance v = (case v of PyNode _ \<Rightarrow> True | _ \<Rightarrow> False)"

text \<open>
  \<open>node_compare\<close> is the rich comparison of the Node type: \<open>self\<close> is a Node, \<open>other\<close>
  is any Python value, \<open>op\<close> the comparison asked for. \<open>node_addr\<close> is the cast of
  \<open>other\<close> to \<open>Node *\<close>, read only after the instance check.
\<close>

definition node_addr :: "pyval \<Rightarrow> addr" where
  "node_addr v = (case v of PyNode a \<Rightarrow> a | _ \<Rightarrow> 0)"

definition node_compare :: "store \<Rightarrow> addr \<Rightarrow> pyval \<Rightarrow> cmp_op \<Rightarrow> pyval" where
  "node_compare s self other op =
     (if node_is_instance other then
        (let result = ts_node_eq (node_node (nodes s self)) (node_node (nodes s (node_addr other))) in
         case op of
           Py_EQ \<Rightarrow> PyBool result
         | Py_NE \<Rightarrow> PyBool (\<not> result)
         | _ \<Rightarrow> PyBool False)
      else PyBool False)"

subsection \<open>Tree: text, construction, edit\<close>

definition tree_get_text :: "store \<Rightarrow> addr \<Rightarrow> pyval" where
  "tree_get_text s self =
     (if tree_edited (trees s self) \<noteq> 0 then PyNone
      else case tree_source (trees s self) of
             None \<Rightarrow> PyNone
           | Some source \<Rightarrow> source)"

definition tree_new_internal :: "store \<Rightarrow> addr \<Rightarrow> pyval \<Rightarrow> addr \<times> store" where
  "tree_new_internal s tree source =
     (let self = next_addr s in
      (self,
       s\<lparr>trees := (trees s)(self := \<lparr>tree_tree = tree, tree_source = Some source, tree_edited = 0\<rparr>),
         next_addr := Suc self\<rparr>))"

text \<open>
  Modelled from the spec: the argument parsing of the Python C API
  (\<open>PyArg_ParseTupleAndKeywords\<close>), which is not among the sources and is taken from
  its documentation.
  \<open>bind_args\<close> matches positional and keyword arguments against the keyword list:
  \<open>required\<close> leading parameters must be given, no parameter twice, no unknown keyword,
  no surplus positional argument. The result has one entry per parameter, \<open>None\<close> for
  an optional parameter that was left out.
  The format unit \<open>I\<close> takes a Python integer to a C unsigned int without overflow
  checking. \<open>(II)\<close> takes any sequence other than a bytes object (a tuple, a list, a
  memory view, whose items are its bytes as integers, a string, whose items are strings of
  one character) of exactly two items, each converted by \<open>I\<close>; \<open>sequence_items\<close> are
  the items of such a sequence. An object given by its attributes alone has no
  \<open>__getitem__\<close> and is not a sequence.
\<close>

fun bind_from :: "nat \<Rightarrow> nat \<Rightarrow> string list \<Rightarrow> pyval list \<Rightarrow> (string \<times> pyval) list
                    \<Rightarrow> pyval option list option" where
  "bind_from i required [] args kwargs = Some []"
| "bind_from i required (k # ks) args kwargs =
     (if i < length args then
        (if map_of kwargs k \<noteq> None then None
         else map_option (\<lambda>r. Some (args ! i) # r) (bind_from (Suc i) required ks args kwargs))
      else
        (case map_of kwargs k of
           Some v \<Rightarrow> map_option (\<lambda>r. Some v # r) (bind_from (Suc i) required ks args kwargs)
         | None \<Rightarrow>
             if i < required then None
             else map_option (\<lambda>r. None # r) (bind_from (Suc i) required ks args kwargs)))"

definition bind_args :: "nat \<Rightarrow> string list \<Rightarrow> pyval list \<Rightarrow> (string \<times> pyval) list
                    \<Rightarrow> pyval option list option" where
  "bind_args required keywords args kwargs =
     (if length keywords < length args then None
      else if \<exists>k \<in> set (map fst kwargs). k \<notin> set keywords then None
      else bind_from 0 required keywords args kwargs)"

definition conv_I :: "pyval \<Rightarrow> 32 word option" where
  "conv_I v =
     (case v of
        PyLong i \<Rightarrow> Some (word_of_int i)
      | PyBool b \<Rightarrow> Some (if b then 1 else 0)
      | _ \<Rightarrow> None)"

definition sequence_items :: "store \<Rightarrow> pyval \<Rightarrow> pyval option list option" where
  "sequence_items s v =
     (case v of
        PyTuple xs \<Rightarrow> Some (map Some xs)
      | PyList l \<Rightarrow> Some (lists s l)
      | PyMemoryView b \<Rightarrow> Some (map (\<lambda>c. Some (PyLong (of_char c))) b)
      | PyUnicode u \<Rightarrow> Some (map (\<lambda>c. Some (PyUnicode [c])) u)
      | _ \<Rightarrow> None)"

definition conv_II :: "store \<Rightarrow> pyval \<Rightarrow> (32 word \<times> 32 word) option" where
  "conv_II s v =
     (let items = sequence_items s v
      in case items of
           Some [Some a, Some b] \<Rightarrow>
             (case (conv_I a, conv_I b) of
                (Some x, Some y) \<Rightarrow> Some (x, y)
              | _ \<Rightarrow> None)
         | _ \<Rightarrow> None)"

definition tree_edit_keywords :: "string list" where
  "tree_edit_keywords =
     [''start_byte'', ''old_end_byte'', ''new_end_byte'',
      ''start_point'', ''old_end_point'', ''new_end_point'']"

definition parse_edit_args :: "store \<Rightarrow> pyval list \<Rightarrow> (string \<times> pyval) list \<Rightarrow> TSInputEdit option" where
  "parse_edit_args s args kwargs =
     (case bind_args 6 tree_edit_keywords args kwargs of
        Some [Some a, Some b, Some c, Some d, Some e, Some f] \<Rightarrow>
          (case (conv_I a, conv_I b, conv_I c, conv_II s d, conv_II s e, conv_II s f) of
             (Some sb, Some oeb, Some neb, Some (sr, sc), Some (oer, oec), Some (ner, nec)) \<Rightarrow>
               Some \<lparr>start_byte = sb, old_end_byte = oeb, new_end_byte = neb,
                     start_point = \<lparr>row = sr, column = sc\<rparr>,
                     old_end_point = \<lparr>row = oer, column = oec\<rparr>,
                     new_end_point = \<lparr>row = ner, column = nec\<rparr>\<rparr>
           | _ \<Rightarrow> None)
      | _ \<Rightarrow> None)"

text \<open>
  Modelled from the spec: \<open>edit(parse_result, edit_descriptor)\<close> mutates the parse
  result in place. What the engine does to the tree is the parameter \<open>adjust\<close>.
\<close>

definition ts_tree_edit :: "(ts_subtree \<Rightarrow> TSInputEdit \<Rightarrow> ts_subtree) \<Rightarrow> store \<Rightarrow> addr \<Rightarrow> TSInputEdit \<Rightarrow> store" where
  "ts_tree_edit adjust s tree edit =
     s\<lparr>ts_trees := (ts_trees s)(tree := map_option (\<lambda>r. adjust r edit) (ts_trees s tree))\<rparr>"

text \<open>
  \<open>tree_edit\<close> returns \<open>None\<close> on every path (\<open>Py_RETURN_NONE\<close> is its only return).
  The second component of its result is the error indicator the call leaves behind:
  the exception set by the argument parser when it fails, nothing otherwise.
\<close>

definition tree_edit :: "(ts_subtree \<Rightarrow> TSInputEdit \<Rightarrow> ts_subtree) \<Rightarrow> store \<Rightarrow> addr
                    \<Rightarrow> pyval list \<Rightarrow> (string \<times> pyval) list \<Rightarrow> (pyval \<times> pyerr option) \<times> store" where
  "tree_edit adjust s self args kwargs =
     (case parse_edit_args s args kwargs of
        Some edit \<Rightarrow>
          (let s1 = ts_tree_edit adjust s (tree_tree (trees s self)) edit in
           ((PyNone, None),
            s1\<lparr>trees := (trees s1)(self := (trees s1 self)\<lparr>tree_edited := 1\<rparr>)\<rparr>))
      | None \<Rightarrow> ((PyNone, Some (TypeError ''PyArg_ParseTupleAndKeywords'' [])), s))"

text \<open>
  Modelled from the spec: the propagation of failures to the immediate caller (section 7).
  The caller of a method is the interpreter, which is not among the sources; it checks
  what every C function hands back (\<open>_Py_CheckFunctionResult\<close>, taken from CPython's
  call protocol). A result with no exception pending is returned; \<open>NULL\<close> with an
  exception pending raises that exception; a result with an exception pending raises a
  SystemError from the pending exception, and \<open>NULL\<close> with none pending raises a
  SystemError as well.
\<close>

definition Py_CheckFunctionResult :: "pyval option \<Rightarrow> pyerr option \<Rightarrow> pyval result" where
  "Py_CheckFunctionResult result err =
     (case result of
        Some v \<Rightarrow>
          (case err of
             None \<Rightarrow> Inr v
           | Some e \<Rightarrow> Inl (SystemError ''%R returned a result with an exception set'' (Some e)))
      | None \<Rightarrow>
          (case err of
             None \<Rightarrow> Inl (SystemError ''%R returned NULL without setting an exception'' None)
           | Some e \<Rightarrow> Inl e))"

text \<open>
  \<open>tree_edit_call\<close> is the method call \<open>tree.edit(...)\<close> as its Python caller
  receives it: the result of \<open>tree_edit\<close> after the interpreter's check.
\<close>

definition tree_edit_call :: "(ts_subtree \<Rightarrow> TSInputEdit \<Rightarrow> ts_subtree) \<Rightarrow> store \<Rightarrow> addr
                    \<Rightarrow> pyval list \<Rightarrow> (string \<times> pyval) list \<Rightarrow> pyval result \<times> store" where
  "tree_edit_call adjust s self args kwargs =
     (let ((result, err), s1) = tree_edit adjust s self args kwargs
      in (Py_CheckFunctionResult (Some result) err, s1))"

subsection \<open>Node: text\<close>

text \<open>
  Modelled from the spec: the buffer protocol and slicing of the Python C API, taken
  from its documentation.
  \<open>PyMemoryView_FromObject\<close> succeeds on bytes-like values; indexing a memory view with
  \<open>slice(start, stop)\<close> for non-negative bounds clips both to the length.
\<close>

definition PyMemoryView_FromObject :: "pyval \<Rightarrow> string option" where
  "PyMemoryView_FromObject v =
     (case v of PyBytes b \<Rightarrow> Some b | PyMemoryView b \<Rightarrow> Some b | _ \<Rightarrow> None)"

definition py_getslice :: "'a list \<Rightarrow> nat \<Rightarrow> nat \<Rightarrow> 'a list" where
  "py_getslice xs start stop =
     (let n = length xs;
          a = (if n \<le> start then n else start);
          b = (if n \<le> stop then n else stop)
      in if a < b then take (b - a) (drop a xs) else [])"

definition node_get_text :: "store \<Rightarrow> addr \<Rightarrow> pyval result" where
  "node_get_text s self =
     (case node_tree (nodes s self) of
        None \<Rightarrow> Inl (ValueError ''No tree'' [])
      | Some tree \<Rightarrow>
          (let source = tree_get_text s tree in
           if source = PyNone then Inr PyNone
           else
             let start_byte = unat (ts_node_start_byte s (node_node (nodes s self)));
                 end_byte = unat (ts_node_end_byte s (node_node (nodes s self)))
             in case PyMemoryView_FromObject source of
                  None \<Rightarrow> Inl (RuntimeError ''PyMemoryView_FromObject failed'' [])
                | Some node_mv \<Rightarrow> Inr (PyMemoryView (py_getslice node_mv start_byte end_byte))))"

subsection \<open>Parser\<close>

text \<open>
  Modelled from the spec: \<open>parse(language, source_bytes, old_tree_or_none)\<close> yields a
  parse result or fails, and \<open>language_version\<close> reads a language's version. The
  parsing algorithm is the parameter \<open>engine\<close>: it sees the parser, the engine's memory,
  the old tree's pointer and the source, and cannot write to any of them (the old tree is
  passed as \<open>const TSTree *\<close>). A new parse result is placed at a fresh address.
  Binding a language records it in the engine parser.
\<close>

type_synonym parse_engine =
  "TSParser \<Rightarrow> (addr \<Rightarrow> ts_subtree option) \<Rightarrow> addr option \<Rightarrow> string \<Rightarrow> nat \<Rightarrow> ts_subtree option"

definition ts_parser_parse_string :: "parse_engine \<Rightarrow> store \<Rightarrow> TSParser \<Rightarrow> addr option \<Rightarrow> string \<Rightarrow> nat
                                      \<Rightarrow> addr option \<times> store" where
  "ts_parser_parse_string engine s parser old_tree source_bytes len =
     (case engine parser (ts_trees s) old_tree source_bytes len of
        None \<Rightarrow> (None, s)
      | Some r \<Rightarrow>
          (Some (next_addr s),
           s\<lparr>ts_trees := (ts_trees s)(next_addr s := Some r), next_addr := Suc (next_addr s)\<rparr>))"

definition ts_parser_set_language :: "TSParser \<Rightarrow> addr \<Rightarrow> TSParser" where
  "ts_parser_set_language parser language = parser\<lparr>tsp_language := Some language\<rparr>"

definition PyBytes_Check :: "pyval \<Rightarrow> bool" where
  "PyBytes_Check v = (case v of PyBytes _ \<Rightarrow> True | _ \<Rightarrow> False)"

definition PyBytes_AsString :: "pyval \<Rightarrow> string" where
  "PyBytes_AsString v = (case v of PyBytes b \<Rightarrow> b | _ \<Rightarrow> [])"

definition tree_is_instance :: "pyval \<Rightarrow> bool" where
  "tree_is_instance v = (case v of PyTree _ \<Rightarrow> True | _ \<Rightarrow> False)"

definition tree_addr :: "pyval \<Rightarrow> addr" where
  "tree_addr v = (case v of PyTree a \<Rightarrow> a | _ \<Rightarrow> 0)"

text \<open>
  \<open>parse_with\<close> is the body of \<open>parser_parse\<close> after \<open>PyArg_UnpackTuple\<close> has taken one
  or two arguments from the tuple; \<open>old_tree_arg\<close> is \<open>NULL\<close> when only one was given.
\<close>

definition parse_with :: "parse_engine \<Rightarrow> store \<Rightarrow> addr \<Rightarrow> pyval \<Rightarrow> pyval option \<Rightarrow> pyval result \<times> store" where
  "parse_with engine s self source_code old_tree_arg =
     (if \<not> PyBytes_Check source_code then
        (Inl (TypeError ''First argument to parse must be bytes'' []), s)
      else
        case (case old_tree_arg of
                None \<Rightarrow> Inr None
              | Some v \<Rightarrow>
                  if \<not> tree_is_instance v then
                    Inl (TypeError ''Second argument to parse must be a Tree'' [])
                  else Inr (Some (tree_tree (trees s (tree_addr v))))) of
          Inl e \<Rightarrow> (Inl e, s)
        | Inr old_tree \<Rightarrow>
            (let len = length (PyBytes_AsString source_code);
                 (new_tree, s1) = ts_parser_parse_string engine s (parser_parser (parsers s self))
                                    old_tree (PyBytes_AsString source_code) len
             in case new_tree of
                  None \<Rightarrow> (Inl (ValueError ''Parsing failed'' []), s1)
                | Some t \<Rightarrow> (let (self', s2) = tree_new_internal s1 t source_code
                            in (Inr (PyTree self'), s2))))"

text \<open>The old tree's engine pointer that \<open>parse_with\<close> hands to the engine.\<close>

definition old_tree_pointer :: "store \<Rightarrow> pyval option \<Rightarrow> addr option" where
  "old_tree_pointer s old = (case old of Some (PyTree t) \<Rightarrow> Some (tree_tree (trees s t)) | _ \<Rightarrow> None)"

definition parser_parse :: "parse_engine \<Rightarrow> store \<Rightarrow> addr \<Rightarrow> pyval list \<Rightarrow> pyval result \<times> store" where
  "parser_parse engine s self args =
     (case args of
        [source_code] \<Rightarrow> parse_with engine s self source_code None
      | [source_code, old_tree_arg] \<Rightarrow> parse_with engine s self source_code (Some old_tree_arg)
      | _ \<Rightarrow> (Inl (TypeError ''PyArg_UnpackTuple'' []), s))"

text \<open>
  Modelled from the spec: attribute lookup and integer conversion of the Python C API,
  taken from its documentation.
  Only a \<open>PyInstance\<close> has attributes of its own choosing; \<open>bool\<close> is a subclass of
  \<open>int\<close>; \<open>PyLong_AsVoidPtr\<close> yields a 64-bit pointer, \<open>NULL\<close> when the integer does not
  fit.
\<close>

definition PyObject_GetAttrString :: "pyval \<Rightarrow> string \<Rightarrow> pyval option" where
  "PyObject_GetAttrString v name = (case v of PyInstance attrs \<Rightarrow> map_of attrs name | _ \<Rightarrow> None)"

definition PyLong_Check :: "pyval \<Rightarrow> bool" where
  "PyLong_Check v = (case v of PyLong _ \<Rightarrow> True | PyBool _ \<Rightarrow> True | _ \<Rightarrow> False)"

definition PyLong_AsVoidPtr :: "pyval \<Rightarrow> addr" where
  "PyLong_AsVoidPtr v =
     (case v of
        PyLong i \<Rightarrow> (if - (2 ^ 63) \<le> i \<and> i < 2 ^ 64 then nat (i mod 2 ^ 64) else 0)
      | PyBool b \<Rightarrow> (if b then 1 else 0)
      | _ \<Rightarrow> 0)"

text \<open>
  \<open>parser_set_language\<close>. The version reader and the two compatibility bounds
  (\<open>TREE_SITTER_MIN_COMPATIBLE_LANGUAGE_VERSION\<close>, \<open>TREE_SITTER_LANGUAGE_VERSION\<close>) are
  the engine's and are parameters here.
\<close>

definition parser_set_language :: "(addr \<Rightarrow> 32 word) \<Rightarrow> 32 word \<Rightarrow> 32 word \<Rightarrow> store \<Rightarrow> addr \<Rightarrow> pyval
                                   \<Rightarrow> pyval result \<times> store" where
  "parser_set_language ts_language_version MIN_COMPATIBLE CURRENT s self arg =
     (case PyObject_GetAttrString arg ''language_id'' of
        None \<Rightarrow> (Inl (TypeError ''Argument to set_language must be a Language'' []), s)
      | Some language_id \<Rightarrow>
          if \<not> PyLong_Check language_id then
            (Inl (TypeError ''Language ID must be an integer'' []), s)
          else
            let language = PyLong_AsVoidPtr language_id in
            if language = 0 then (Inl (ValueError ''Language ID must not be null'' []), s)
            else
              let version = ts_language_version language in
              if version < MIN_COMPATIBLE \<or> CURRENT < version then
                (Inl (ValueError ''Incompatible Language version %u. Must not be between %u and %u''
                        [ArgU (unat version), ArgU (unat MIN_COMPATIBLE), ArgU (unat CURRENT)]), s)
              else
                (Inr PyNone,
                 s\<lparr>parsers := (parsers s)
                     (self := (parsers s self)
                        \<lparr>parser_parser := ts_parser_set_language (parser_parser (parsers s self)) language\<rparr>)\<rparr>))"

subsection \<open>Engine primitives on cursors\<close>

text \<open>
  Modelled from the spec: \<open>tree_cursor_new(position)\<close>, \<open>goto_first_child\<close>,
  \<open>goto_next_sibling\<close>, \<open>goto_parent\<close>, \<open>current_node\<close> (section 6). A cursor is
  the node it was started at together with the child indices it has descended through;
  it never leaves the subtree of its starting node, and a move that fails leaves it where
  it was. The field name of the current position is not part of the tree model; it is
  the parameter of \<open>tree_cursor_current_field_name\<close> below.
\<close>

definition ts_tree_cursor_new :: "TSNode \<Rightarrow> TSTreeCursor" where
  "ts_tree_cursor_new node = \<lparr>tc_tree = tsn_tree node, tc_root = tsn_id node, tc_stack = []\<rparr>"

definition ts_tree_cursor_reset :: "TSTreeCursor \<Rightarrow> TSNode \<Rightarrow> TSTreeCursor" where
  "ts_tree_cursor_reset c node = c\<lparr>tc_tree := tsn_tree node, tc_root := tsn_id node, tc_stack := []\<rparr>"

definition ts_tree_cursor_current_node :: "TSTreeCursor \<Rightarrow> TSNode" where
  "ts_tree_cursor_current_node c =
     \<lparr>tsn_id = map_option (\<lambda>p. p @ tc_stack c) (tc_root c), tsn_tree = tc_tree c\<rparr>"

definition ts_tree_cursor_goto_first_child :: "store \<Rightarrow> TSTreeCursor \<Rightarrow> bool \<times> TSTreeCursor" where
  "ts_tree_cursor_goto_first_child s c =
     (if 0 < ts_node_child_count s (ts_tree_cursor_current_node c)
      then (True, c\<lparr>tc_stack := tc_stack c @ [0]\<rparr>)
      else (False, c))"

definition ts_tree_cursor_goto_next_sibling :: "store \<Rightarrow> TSTreeCursor \<Rightarrow> bool \<times> TSTreeCursor" where
  "ts_tree_cursor_goto_next_sibling s c =
     (if tc_stack c = [] then (False, c)
      else if Suc (last (tc_stack c))
                < ts_node_child_count s (ts_tree_cursor_current_node (c\<lparr>tc_stack := butlast (tc_stack c)\<rparr>))
      then (True, c\<lparr>tc_stack := butlast (tc_stack c) @ [Suc (last (tc_stack c))]\<rparr>)
      else (False, c))"

definition ts_tree_cursor_goto_parent :: "TSTreeCursor \<Rightarrow> bool \<times> TSTreeCursor" where
  "ts_tree_cursor_goto_parent c =
     (if tc_stack c = [] then (False, c)
      else (True, c\<lparr>tc_stack := butlast (tc_stack c)\<rparr>))"

definition ts_tree_root_node :: "addr \<Rightarrow> TSNode" where
  "ts_tree_root_node tree = \<lparr>tsn_id = Some [], tsn_tree = tree\<rparr>"

subsection \<open>Lists of the Python C API\<close>

text \<open>
  Modelled from the spec: the list functions of the Python C API, taken from its
  documentation. \<open>PyList_New n\<close> makes a
  list of \<open>n\<close> empty (\<open>NULL\<close>) slots; \<open>PyList_SetItem\<close> fills a slot and refuses an index
  out of range (the binding ignores its return value, so the list is then left as it
  was); \<open>PyList_GetItem\<close> yields \<open>NULL\<close> out of range.
\<close>

definition PyList_New :: "store \<Rightarrow> nat \<Rightarrow> addr \<times> store" where
  "PyList_New s n =
     (next_addr s,
      s\<lparr>lists := (lists s)(next_addr s := replicate n None), next_addr := Suc (next_addr s)\<rparr>)"

definition PyList_SetItem :: "store \<Rightarrow> addr \<Rightarrow> nat \<Rightarrow> pyval \<Rightarrow> store" where
  "PyList_SetItem s l i v =
     (if i < length (lists s l) then s\<lparr>lists := (lists s)(l := (lists s l)[i := Some v])\<rparr> else s)"

definition PyList_GetItem :: "store \<Rightarrow> addr \<Rightarrow> nat \<Rightarrow> pyval option" where
  "PyList_GetItem s l i = (if i < length (lists s l) then lists s l ! i else None)"

definition PyList_Append :: "store \<Rightarrow> addr \<Rightarrow> pyval \<Rightarrow> store" where
  "PyList_Append s l v = s\<lparr>lists := (lists s)(l := lists s l @ [Some v])\<rparr>"

subsection \<open>Node: children\<close>

text \<open>
  The \<open>do ... while\<close> loop of \<open>node_get_children\<close>, run on the file-level
  \<open>default_cursor\<close>: wrap the cursor's current node, store it at index \<open>i\<close>, advance
  to the next sibling, repeat while there is one.
\<close>

definition siblings_left :: "store \<Rightarrow> nat" where
  "siblings_left s =
     ts_node_child_count s
       (ts_tree_cursor_current_node ((default_cursor s)\<lparr>tc_stack := butlast (tc_stack (default_cursor s))\<rparr>))
     - last (tc_stack (default_cursor s))"

function children_loop :: "store \<Rightarrow> addr option \<Rightarrow> addr \<Rightarrow> nat \<Rightarrow> store" where
  "children_loop s tree result i =
     (let child = ts_tree_cursor_current_node (default_cursor s);
          (c, s1) = node_new_internal s child tree;
          s2 = PyList_SetItem s1 result i (PyNode c);
          (more, cur) = ts_tree_cursor_goto_next_sibling s2 (default_cursor s2)
      in if more then children_loop (s2\<lparr>default_cursor := cur\<rparr>) tree result (Suc i)
         else s2\<lparr>default_cursor := cur\<rparr>)"
  by pat_completeness auto
termination
proof (relation "measure (\<lambda>(s, tree, result, i). siblings_left s)")
  show "wf (measure (\<lambda>(s, tree, result, i). siblings_left s))"
    by simp
next
  fix s :: store and tree :: "addr option" and result i :: nat
    and child x c s1 s2 y more cur
  assume a: "child = ts_tree_cursor_current_node (default_cursor s)"
    "x = node_new_internal s child tree" "(c, s1) = x"
    "s2 = PyList_SetItem s1 result i (PyNode c)"
    "y = ts_tree_cursor_goto_next_sibling s2 (default_cursor s2)" "(more, cur) = y" "more"
  have s1: "s1 = snd (node_new_internal s child tree)"
    using a(2,3) by (metis snd_conv)
  have same: "ts_trees s2 = ts_trees s" "default_cursor s2 = default_cursor s"
    using a(4) s1 by (auto simp: PyList_SetItem_def node_new_internal_def Let_def)
  have cnt: "\<And>n. ts_node_child_count s2 n = ts_node_child_count s n"
    by (simp add: ts_node_child_count_def ts_node_subtree_def same cong: option.case_cong)
  have cnt': "\<And>n. ts_node_child_count (s2\<lparr>default_cursor := cur\<rparr>) n = ts_node_child_count s n"
    by (simp add: ts_node_child_count_def ts_node_subtree_def same cong: option.case_cong)
  from a(5,6,7) have "siblings_left (s2\<lparr>default_cursor := cur\<rparr>) < siblings_left s"
    unfolding siblings_left_def cnt'
    by (auto simp: ts_tree_cursor_goto_next_sibling_def same cnt split: if_splits)
  then show "((s2\<lparr>default_cursor := cur\<rparr>, tree, result, Suc i), (s, tree, result, i))
        \<in> measure (\<lambda>(s, tree, result, i). siblings_left s)"
    by simp
qed

declare children_loop.simps [simp del]

definition node_get_children :: "store \<Rightarrow> addr \<Rightarrow> pyval \<times> store" where
  "node_get_children s self =
     (case node_children (nodes s self) of
        Some children \<Rightarrow> (PyList children, s)
      | None \<Rightarrow>
          (let len = ts_node_child_count s (node_node (nodes s self));
               (result, s1) = PyList_New s len;
               s2 = (if 0 < len then
                       (let c0 = ts_tree_cursor_reset (default_cursor s1) (node_node (nodes s1 self));
                            (_, c1) = ts_tree_cursor_goto_first_child s1 c0
                        in children_loop (s1\<lparr>default_cursor := c1\<rparr>) (node_tree (nodes s1 self)) result 0)
                     else s1)
           in (PyList result,
               s2\<lparr>nodes := (nodes s2)(self := (nodes s2 self)\<lparr>node_children := Some result\<rparr>)\<rparr>)))"

definition node_get_child_count :: "store \<Rightarrow> addr \<Rightarrow> pyval" where
  "node_get_child_count s self = PyLong (int (ts_node_child_count s (node_node (nodes s self))))"

subsection \<open>Tree: root node and cursor\<close>

definition tree_get_root_node :: "store \<Rightarrow> addr \<Rightarrow> pyval \<times> store" where
  "tree_get_root_node s self =
     (let (n, s1) = node_new_internal s (ts_tree_root_node (tree_tree (trees s self))) (Some self)
      in (PyNode n, s1))"

definition tree_cursor_new_internal :: "store \<Rightarrow> TSNode \<Rightarrow> addr option \<Rightarrow> addr \<times> store" where
  "tree_cursor_new_internal s node tree =
     (let self = next_addr s in
      (self,
       s\<lparr>cursors := (cursors s)
           (self := \<lparr>cursor_cursor = ts_tree_cursor_new node, cursor_node = None, cursor_tree = tree\<rparr>),
         next_addr := Suc self\<rparr>))"

definition tree_walk :: "store \<Rightarrow> addr \<Rightarrow> pyval \<times> store" where
  "tree_walk s self =
     (let (c, s1) = tree_cursor_new_internal s (ts_tree_root_node (tree_tree (trees s self))) (Some self)
      in (PyTreeCursor c, s1))"

definition node_walk :: "store \<Rightarrow> addr \<Rightarrow> pyval \<times> store" where
  "node_walk s self =
     (let (c, s1) = tree_cursor_new_internal s (node_node (nodes s self)) (node_tree (nodes s self))
      in (PyTreeCursor c, s1))"

subsection \<open>TreeCursor\<close>

definition tree_cursor_get_node :: "store \<Rightarrow> addr \<Rightarrow> pyval \<times> store" where
  "tree_cursor_get_node s self =
     (case cursor_node (cursors s self) of
        Some n \<Rightarrow> (PyNode n, s)
      | None \<Rightarrow>
          (let (n, s1) = node_new_internal s
                           (ts_tree_cursor_current_node (cursor_cursor (cursors s self)))
                           (cursor_tree (cursors s self))
           in (PyNode n, s1\<lparr>cursors := (cursors s1)(self := (cursors s1 self)\<lparr>cursor_node := Some n\<rparr>)\<rparr>)))"

definition tree_cursor_current_field_name :: "(TSTreeCursor \<Rightarrow> string option) \<Rightarrow> store \<Rightarrow> addr
                                              \<Rightarrow> pyval \<times> store" where
  "tree_cursor_current_field_name ts_tree_cursor_current_field_name s self =
     (case ts_tree_cursor_current_field_name (cursor_cursor (cursors s self)) of
        None \<Rightarrow> (PyNone, s)
      | Some field_name \<Rightarrow> (PyUnicode field_name, s))"

definition tree_cursor_goto_parent :: "store \<Rightarrow> addr \<Rightarrow> pyval \<times> store" where
  "tree_cursor_goto_parent s self =
     (let (result, c) = ts_tree_cursor_goto_parent (cursor_cursor (cursors s self));
          s1 = s\<lparr>cursors := (cursors s)(self := (cursors s self)\<lparr>cursor_cursor := c\<rparr>)\<rparr>
      in if result
         then (PyBool result, s1\<lparr>cursors := (cursors s1)(self := (cursors s1 self)\<lparr>cursor_node := None\<rparr>)\<rparr>)
         else (PyBool result, s1))"

definition tree_cursor_goto_first_child :: "store \<Rightarrow> addr \<Rightarrow> pyval \<times> store" where
  "tree_cursor_goto_first_child s self =
     (let (result, c) = ts_tree_cursor_goto_first_child s (cursor_cursor (cursors s self));
          s1 = s\<lparr>cursors := (cursors s)(self := (cursors s self)\<lparr>cursor_cursor := c\<rparr>)\<rparr>
      in if result
         then (PyBool result, s1\<lparr>cursors := (cursors s1)(self := (cursors s1 self)\<lparr>cursor_node := None\<rparr>)\<rparr>)
         else (PyBool result, s1))"

definition tree_cursor_goto_next_sibling :: "store \<Rightarrow> addr \<Rightarrow> pyval \<times> store" where
  "tree_cursor_goto_next_sibling s self =
     (let (result, c) = ts_tree_cursor_goto_next_sibling s (cursor_cursor (cursors s self));
          s1 = s\<lparr>cursors := (cursors s)(self := (cursors s self)\<lparr>cursor_cursor := c\<rparr>)\<rparr>
      in if result
         then (PyBool result, s1\<lparr>cursors := (cursors s1)(self := (cursors s1 self)\<lparr>cursor_node := None\<rparr>)\<rparr>)
         else (PyBool result, s1))"

text \<open>
  The three navigation methods share one shape: the engine moves the cursor in place and
  reports whether it moved; when it did, the cached Node is dropped. \<open>cursor_moved\<close>
  names that shape for the proofs.
\<close>

definition cursor_moved :: "store \<Rightarrow> addr \<Rightarrow> bool \<times> TSTreeCursor \<Rightarrow> pyval \<times> store" where
  "cursor_moved s self r =
     (let (result, c) = r;
          s1 = s\<lparr>cursors := (cursors s)(self := (cursors s self)\<lparr>cursor_cursor := c\<rparr>)\<rparr>
      in if result
         then (PyBool result, s1\<lparr>cursors := (cursors s1)(self := (cursors s1 self)\<lparr>cursor_node := None\<rparr>)\<rparr>)
         else (PyBool result, s1))"

subsection \<open>Query: captures\<close>

text \<open>
  Modelled from the spec: \<open>query_execute(query, node, optional_point_range)\<close> yields a
  finite stream of captures. The pattern matcher is the parameter \<open>matcher\<close>; it sees
  the compiled query, the engine's memory, the node to search and the point range held
  by the query cursor. The engine sets that range only through
  \<open>ts_query_cursor_set_point_range\<close>; a new cursor has none.
\<close>

type_synonym query_matcher =
  "addr option \<Rightarrow> (addr \<Rightarrow> ts_subtree option) \<Rightarrow> TSNode \<Rightarrow> (TSPoint \<times> TSPoint) option
     \<Rightarrow> TSQueryCapture list"

definition ts_query_cursor_new :: TSQueryCursor where
  "ts_query_cursor_new = \<lparr>qc_pending = [], qc_range = None\<rparr>"

definition ts_query_cursor_set_point_range :: "TSQueryCursor \<Rightarrow> TSPoint \<Rightarrow> TSPoint \<Rightarrow> TSQueryCursor" where
  "ts_query_cursor_set_point_range qc p q = qc\<lparr>qc_range := Some (p, q)\<rparr>"

definition ts_query_cursor_exec :: "query_matcher \<Rightarrow> store \<Rightarrow> addr option \<Rightarrow> TSNode \<Rightarrow> store" where
  "ts_query_cursor_exec matcher s query node =
     (case query_cursor s of
        None \<Rightarrow> s
      | Some qc \<Rightarrow>
          s\<lparr>query_cursor := Some (qc\<lparr>qc_pending := matcher query (ts_trees s) node (qc_range qc)\<rparr>)\<rparr>)"

definition ts_query_cursor_next_capture :: "store \<Rightarrow> TSQueryCapture option \<times> store" where
  "ts_query_cursor_next_capture s =
     (case query_cursor s of
        None \<Rightarrow> (None, s)
      | Some qc \<Rightarrow>
          (case qc_pending qc of
             [] \<Rightarrow> (None, s)
           | c # cs \<Rightarrow> (Some c, s\<lparr>query_cursor := Some (qc\<lparr>qc_pending := cs\<rparr>)\<rparr>)))"

definition query_captures_keywords :: "string list" where
  "query_captures_keywords = [''node'', ''start_point'', ''end_point'']"

text \<open>
  The format \<open>O|(II)(II)\<close>: the node is required, the two points are optional and
  their four variables keep their initial value 0 when a point is left out.
\<close>

definition parse_captures_args :: "store \<Rightarrow> pyval list \<Rightarrow> (string \<times> pyval) list
                                   \<Rightarrow> (pyval \<times> (32 word \<times> 32 word) \<times> (32 word \<times> 32 word)) option" where
  "parse_captures_args s args kwargs =
     (case bind_args 1 query_captures_keywords args kwargs of
        Some [Some node, sp, ep] \<Rightarrow>
          (case (case sp of None \<Rightarrow> Some (0, 0) | Some v \<Rightarrow> conv_II s v,
                 case ep of None \<Rightarrow> Some (0, 0) | Some v \<Rightarrow> conv_II s v) of
             (Some a, Some b) \<Rightarrow> Some (node, a, b)
           | _ \<Rightarrow> None)
      | _ \<Rightarrow> None)"

definition captures_left :: "store \<Rightarrow> nat" where
  "captures_left s = (case query_cursor s of None \<Rightarrow> 0 | Some qc \<Rightarrow> length (qc_pending qc))"

text \<open>
  The \<open>while\<close> loop of \<open>query_captures\<close>; its value is the store when the loop ends.
  The loop has no error exit. When the capture's index has no name in \<open>capture_names\<close>,
  \<open>PyList_GetItem\<close> yields \<open>NULL\<close>, which the loop hands to \<open>PyTuple_Pack\<close>
  unchecked; \<open>PyTuple_Pack\<close> dereferences it and the process crashes (and so it does
  in \<open>PyList_GetItem\<close> when \<open>capture_names\<close> itself is \<open>NULL\<close>). The crash is the
  value \<open>None\<close>.
\<close>

function captures_loop :: "store \<Rightarrow> addr \<Rightarrow> addr \<Rightarrow> addr \<Rightarrow> store option" where
  "captures_loop s self node result =
     (case ts_query_cursor_next_capture s of
        (None, s1) \<Rightarrow> Some s1
      | (Some capture, s1) \<Rightarrow>
          (let (capture_node, s2) = node_new_internal s1 (cap_node capture) (node_tree (nodes s1 node))
           in case (case query_capture_names (queries s2 self) of
                      None \<Rightarrow> None
                    | Some names \<Rightarrow> PyList_GetItem s2 names (cap_index capture)) of
                None \<Rightarrow> None
              | Some capture_name \<Rightarrow>
                  captures_loop (PyList_Append s2 result (PyTuple [PyNode capture_node, capture_name]))
                    self node result))"
  by pat_completeness auto
termination
proof (relation "measure (\<lambda>(s, self, node, result). captures_left s)")
  show "wf (measure (\<lambda>(s, self, node, result). captures_left s))"
    by simp
next
  fix s :: store and self node result :: nat
    and x capture s1 y capture_node s2 capture_name and z :: "TSQueryCapture option"
  assume a: "(z, s1) = ts_query_cursor_next_capture s" "z = Some capture"
    "y = node_new_internal s1 (cap_node capture) (node_tree (nodes s1 node))"
    "(capture_node, s2) = y"
  have s2: "s2 = snd (node_new_internal s1 (cap_node capture) (node_tree (nodes s1 node)))"
    using a(3,4) by (metis snd_conv)
  have "captures_left s1 < captures_left s"
    using a(1,2)
    by (auto simp: ts_query_cursor_next_capture_def captures_left_def split: option.splits list.splits)
  moreover have "captures_left (PyList_Append s2 result (PyTuple [PyNode capture_node, capture_name]))
      = captures_left s1"
    by (simp add: s2 captures_left_def PyList_Append_def node_new_internal_def Let_def)
  ultimately show "((PyList_Append s2 result (PyTuple [PyNode capture_node, capture_name]), self, node, result),
      (s, self, node, result)) \<in> measure (\<lambda>(s, self, node, result). captures_left s)"
    by simp
qed

declare captures_loop.simps [simp del]

text \<open>
  \<open>query_captures\<close> returns its error or the list it has filled, with the store it
  leaves; \<open>None\<close> is the crash of its loop.
\<close>

definition query_captures :: "query_matcher \<Rightarrow> store \<Rightarrow> addr \<Rightarrow> pyval list \<Rightarrow> (string \<times> pyval) list
                              \<Rightarrow> (pyval result \<times> store) option" where
  "query_captures matcher s self args kwargs =
     (case parse_captures_args s args kwargs of
        None \<Rightarrow> Some (Inl (TypeError ''PyArg_ParseTupleAndKeywords'' []), s)
      | Some (node, (start_row, start_column), (end_row, end_column)) \<Rightarrow>
          if \<not> node_is_instance node then
            Some (Inl (TypeError ''First argument to captures must be a Node'' []), s)
          else
            (let s1 = (if query_cursor s = None then s\<lparr>query_cursor := Some ts_query_cursor_new\<rparr> else s);
                 s2 = ts_query_cursor_exec matcher s1 (query_query (queries s1 self))
                        (node_node (nodes s1 (node_addr node)));
                 (result, s3) = PyList_New s2 0
             in case captures_loop s3 self (node_addr node) result of
                  None \<Rightarrow> None
                | Some s4 \<Rightarrow> Some (Inr (PyList result), s4)))"

subsection \<open>Query: compilation\<close>

text \<open>
  Modelled from the spec: \<open>compile_query(language, pattern_source)\<close> yields a query or
  a failure with its byte offset and kind. The compiler is the parameter \<open>compile\<close>; a
  compiled query is placed at a fresh address of the engine's memory.
  Also modelled: the C library's \<open>iswalnum\<close> on a plain \<open>char\<close>, as the letters and
  digits of ASCII.
\<close>

type_synonym query_compiler = "addr \<Rightarrow> string \<Rightarrow> nat \<Rightarrow> (nat \<times> TSQueryError) + string list"

definition ts_query_new :: "query_compiler \<Rightarrow> store \<Rightarrow> addr \<Rightarrow> string \<Rightarrow> nat
                            \<Rightarrow> addr option \<times> nat \<times> TSQueryError \<times> store" where
  "ts_query_new compile s language source len =
     (case compile language source len of
        Inl (error_offset, error_type) \<Rightarrow> (None, error_offset, error_type, s)
      | Inr names \<Rightarrow>
          (Some (next_addr s), 0, TSQueryErrorNone,
           s\<lparr>ts_queries := (ts_queries s)(next_addr s := names), next_addr := Suc (next_addr s)\<rparr>))"

definition ts_query_capture_count :: "store \<Rightarrow> addr \<Rightarrow> nat" where
  "ts_query_capture_count s query = length (ts_queries s query)"

definition ts_query_capture_name_for_id :: "store \<Rightarrow> addr \<Rightarrow> nat \<Rightarrow> string" where
  "ts_query_capture_name_for_id s query i =
     (if i < length (ts_queries s query) then ts_queries s query ! i else [])"

definition iswalnum :: "char \<Rightarrow> bool" where
  "iswalnum c =
     (let n = (of_char c :: nat)
      in (48 \<le> n \<and> n \<le> 57) \<or> (65 \<le> n \<and> n \<le> 90) \<or> (97 \<le> n \<and> n \<le> 122))"

text \<open>
  The pattern source is a C buffer of \<open>length\<close> bytes followed by a NUL.
  \<open>char_at\<close> reads it; \<open>word_end_loop\<close> is the \<open>while\<close> loop that advances
  \<open>word_end\<close>; \<open>c_string\<close> is what \<open>%s\<close> prints from a position: the bytes up to the
  first NUL.
\<close>

definition char_at :: "string \<Rightarrow> nat \<Rightarrow> char" where
  "char_at source i = (if i < length source then source ! i else CHR 0x00)"

function word_end_loop :: "string \<Rightarrow> nat \<Rightarrow> nat \<Rightarrow> nat" where
  "word_end_loop source len word_end =
     (if word_end < len \<and>
         (iswalnum (char_at source word_end) \<or> char_at source word_end = CHR ''-'' \<or>
          char_at source word_end = CHR ''_'' \<or> char_at source word_end = CHR ''?'' \<or>
          char_at source word_end = CHR ''.'')
      then word_end_loop source len (Suc word_end)
      else word_end)"
  by pat_completeness auto
termination
  by (relation "measure (\<lambda>(source, len, word_end). len - word_end)") auto

declare word_end_loop.simps [simp del]

definition c_string :: "string \<Rightarrow> string" where
  "c_string buf = takeWhile (\<lambda>c. c \<noteq> CHR 0x00) buf"

fun capture_names_loop :: "store \<Rightarrow> addr \<Rightarrow> addr \<Rightarrow> nat \<Rightarrow> nat \<Rightarrow> store" where
  "capture_names_loop s query names i 0 = s"
| "capture_names_loop s query names i (Suc k) =
     capture_names_loop
       (PyList_SetItem s names i (PyUnicode (ts_query_capture_name_for_id s query i)))
       query names (Suc i) k"

text \<open>
  \<open>query_new_internal\<close>. On failure the word at the error offset is cut out by writing
  a NUL at \<open>word_end\<close> (the byte is restored afterwards) and printing from the offset.
  The \<open>for\<close> loop over the capture names runs \<open>n - i\<close> more times from index \<open>i\<close>; the
  last argument of \<open>capture_names_loop\<close> is that remaining count.
\<close>

definition query_new_internal :: "query_compiler \<Rightarrow> store \<Rightarrow> addr \<Rightarrow> string \<Rightarrow> nat
                                  \<Rightarrow> pyval result \<times> store" where
  "query_new_internal compile s language source len =
     (let query = next_addr s;
          s0 = s\<lparr>queries := (queries s)(query := \<lparr>query_query = None, query_capture_names = None\<rparr>),
                 next_addr := Suc query\<rparr>
      in case ts_query_new compile s0 language source len of
           (None, error_offset, error_type, s1) \<Rightarrow>
             (let word_end = word_end_loop source len error_offset;
                  buf = (source @ [CHR 0x00])[word_end := CHR 0x00];
                  word = c_string (drop error_offset buf)
              in (Inl (case error_type of
                         TSQueryErrorNodeType \<Rightarrow> NameError ''Invalid node type %s'' [ArgS word]
                       | TSQueryErrorField \<Rightarrow> NameError ''Invalid field name %s'' [ArgS word]
                       | TSQueryErrorCapture \<Rightarrow> NameError ''Invalid capture name %s'' [ArgS word]
                       | _ \<Rightarrow> SyntaxError ''Invalid syntax at offset %u'' [ArgU error_offset]),
                  s1))
         | (Some q, error_offset, error_type, s1) \<Rightarrow>
             (let s2 = s1\<lparr>queries := (queries s1)(query := (queries s1 query)\<lparr>query_query := Some q\<rparr>)\<rparr>;
                  n = ts_query_capture_count s2 q;
                  (names, s3) = PyList_New s2 n;
                  s4 = s3\<lparr>queries := (queries s3)(query := (queries s3 query)\<lparr>query_capture_names := Some names\<rparr>)\<rparr>
              in (Inr (PyQuery query), capture_names_loop s4 q names 0 n)))"

subsection \<open>The slice of the specification\<close>

text \<open>
  The byte slice \<open>[a, b)\<close> of a buffer, in the words of the specification: the bytes at
  the positions \<open>a \<le> i < b\<close> that the buffer has, in order.
\<close>

definition byte_slice :: "string \<Rightarrow> nat \<Rightarrow> nat \<Rightarrow> string" where
  "byte_slice bs a b = map (\<lambda>i. bs ! i) (filter (\<lambda>i. i < length bs) [a..<b])"

subsection \<open>The identifier token of the specification\<close>

text \<open>
  The minimal identifier token at an offset, in the words of the specification: scan
  forward from the offset while the character is alphanumeric or one of
  \<open>- _ ? .\<close>.
\<close>

definition is_identifier_char :: "char \<Rightarrow> bool" where
  "is_identifier_char c =
     (iswalnum c \<or> c = CHR ''-'' \<or> c = CHR ''_'' \<or> c = CHR ''?'' \<or> c = CHR ''.'')"

definition identifier_token :: "string \<Rightarrow> nat \<Rightarrow> string" where
  "identifier_token source offset = takeWhile is_identifier_char (drop offset source)"

subsection \<open>The point range of the specification\<close>

text \<open>
  A node lies within the point range \<open>[p, q]\<close> when it starts at or after \<open>p\<close> and ends
  at or before \<open>q\<close>, points being ordered by row, then column.
\<close>

definition point_le :: "TSPoint \<Rightarrow> TSPoint \<Rightarrow> bool" where
  "point_le p q = (row p < row q \<or> (row p = row q \<and> column p \<le> column q))"

definition node_in_range :: "(addr \<Rightarrow> ts_subtree option) \<Rightarrow> TSNode \<Rightarrow> TSPoint \<Rightarrow> TSPoint \<Rightarrow> bool" where
  "node_in_range mem n p q =
     (case mem (tsn_tree n) of
        None \<Rightarrow> False
      | Some r \<Rightarrow>
          (case tsn_id n of
             None \<Rightarrow> False
           | Some path \<Rightarrow>
               (case subtree_at r path of
                  None \<Rightarrow> False
                | Some t \<Rightarrow> point_le p (sub_start_point t) \<and> point_le (sub_end_point t) q)))"

subsection \<open>Example data\<close>

text \<open>
  A store right after the module is loaded and one Parser (address 1) has been made:
  all memory zeroed, \<open>default_cursor = {0}\<close>, \<open>query_cursor = NULL\<close>.
\<close>

definition empty_store :: store where
  "empty_store =
     \<lparr>nodes = (\<lambda>_. \<lparr>node_node = \<lparr>tsn_id = None, tsn_tree = 0\<rparr>, node_children = None, node_tree = None\<rparr>),
      trees = (\<lambda>_. \<lparr>tree_tree = 0, tree_source = None, tree_edited = 0\<rparr>),
      parsers = (\<lambda>_. \<lparr>parser_parser = \<lparr>tsp_language = None\<rparr>\<rparr>),
      cursors = (\<lambda>_. \<lparr>cursor_cursor = \<lparr>tc_tree = 0, tc_root = None, tc_stack = []\<rparr>,
                       cursor_node = None, cursor_tree = None\<rparr>),
      queries = (\<lambda>_. \<lparr>query_query = None, query_capture_names = None\<rparr>),
      lists = (\<lambda>_. []),
      ts_trees = (\<lambda>_. None),
      ts_queries = (\<lambda>_. []),
      default_cursor = \<lparr>tc_tree = 0, tc_root = None, tc_stack = []\<rparr>,
      query_cursor = None,
      next_addr = 2\<rparr>"

text \<open>
  The parse result of the source \<open>x = 1 + 2\<close> (one line, nine bytes) under a small
  expression grammar, and a parsing engine that knows this one source.
\<close>

definition pt :: "nat \<Rightarrow> nat \<Rightarrow> TSPoint" where
  "pt r c = \<lparr>row = of_nat r, column = of_nat c\<rparr>"

definition token :: "string \<Rightarrow> bool \<Rightarrow> nat \<Rightarrow> nat \<Rightarrow> ts_subtree" where
  "token ty named a b = Subtree ty named (of_nat a) (of_nat b) (pt 0 a) (pt 0 b) []"

definition example_tree :: ts_subtree where
  "example_tree =
     Subtree ''module'' True 0 9 (pt 0 0) (pt 0 9)
       [Subtree ''assignment'' True 0 9 (pt 0 0) (pt 0 9)
          [token ''identifier'' True 0 1,
           token ''='' False 2 3,
           Subtree ''binary_expression'' True 4 9 (pt 0 4) (pt 0 9)
             [token ''integer'' True 4 5, token ''+'' False 6 7, token ''integer'' True 8 9]]]"

definition example_engine :: parse_engine where
  "example_engine parser mem old_tree source len =
     (if source = ''x = 1 + 2'' then Some example_tree else None)"

text \<open>
  A store that holds the parse of that source: the engine tree at address 2, its Tree at
  address 3, a Node on the root at address 4, a Node on the binary expression at
  address 5, and a TreeCursor started at the root at address 6.
\<close>

definition example_store :: store where
  "example_store =
     empty_store
       \<lparr>nodes := (nodes empty_store)
          (4 := \<lparr>node_node = \<lparr>tsn_id = Some [], tsn_tree = 2\<rparr>, node_children = None, node_tree = Some 3\<rparr>,
           5 := \<lparr>node_node = \<lparr>tsn_id = Some [0, 2], tsn_tree = 2\<rparr>, node_children = None, node_tree = Some 3\<rparr>),
        trees := (trees empty_store)
          (3 := \<lparr>tree_tree = 2, tree_source = Some (PyBytes ''x = 1 + 2''), tree_edited = 0\<rparr>),
        cursors := (cursors empty_store)
          (6 := \<lparr>cursor_cursor = \<lparr>tc_tree = 2, tc_root = Some [], tc_stack = []\<rparr>,
                  cursor_node = None, cursor_tree = Some 3\<rparr>),
        ts_trees := (ts_trees empty_store)(2 := Some example_tree),
        next_addr := 7\<rparr>"

text \<open>The example store with Node 5 placed on the identifier \<open>x\<close>, a leaf.\<close>

definition leaf_store :: store where
  "leaf_store =
     example_store
       \<lparr>nodes := (nodes example_store)
          (5 := \<lparr>node_node = \<lparr>tsn_id = Some [0, 0], tsn_tree = 2\<rparr>, node_children = None,
                  node_tree = Some 3\<rparr>)\<rparr>"

text \<open>The same store after the cursor's \<open>node\<close> has been read once.\<close>

definition cached_store :: store where
  "cached_store = snd (tree_cursor_get_node example_store 6)"

definition example_edit :: "pyval list" where
  "example_edit =
     [PyLong 4, PyLong 5, PyLong 6,
      PyTuple [PyLong 0, PyLong 4], PyTuple [PyLong 0, PyLong 5], PyTuple [PyLong 0, PyLong 6]]"

text \<open>
  A matcher for the one-pattern query \<open>(binary_expression) @expr\<close> on the example tree:
  it reports the binary expression when that lies within the point range of the query
  cursor (always, when the cursor has no range). The store \<open>query_store\<close> holds the
  compiled query: the Query at address 7, its engine query at 8, its capture names at 9.
\<close>

definition example_matcher :: query_matcher where
  "example_matcher query mem node rng =
     filter (\<lambda>c. case rng of None \<Rightarrow> True | Some (p, q) \<Rightarrow> node_in_range mem (cap_node c) p q)
       [\<lparr>cap_node = \<lparr>tsn_id = Some [0, 2], tsn_tree = 2\<rparr>, cap_index = 0\<rparr>]"

definition query_store :: store where
  "query_store =
     example_store
       \<lparr>queries := (queries example_store)(7 := \<lparr>query_query = Some 8, query_capture_names = Some 9\<rparr>),
        lists := (lists example_store)(9 := [Some (PyUnicode ''expr'')]),
        ts_queries := (ts_queries example_store)(8 := [''expr'']),
        next_addr := 10\<rparr>"

text \<open>
  A version reader for two languages: the one at address 100 has version 13, every other
  has version 0. A store whose Parser 1 is bound to language 100.
\<close>

definition example_version :: "addr \<Rightarrow> 32 word" where
  "example_version l = (if l = 100 then 13 else 0)"

definition bound_store :: store where
  "bound_store =
     empty_store\<lparr>parsers := (parsers empty_store)(1 := \<lparr>parser_parser = \<lparr>tsp_language = Some 100\<rparr>\<rparr>)\<rparr>"

section \<open>Properties\<close>

subsection \<open>Node comparison\<close>

lemma ts_node_eq_refl: "ts_node_eq a a"
  by (simp add: ts_node_eq_def)

lemma ts_node_eq_sym: "ts_node_eq a b = ts_node_eq b a"
  by (auto simp: ts_node_eq_def)

lemma ts_node_eq_trans: "ts_node_eq a b \<Longrightarrow> ts_node_eq b c \<Longrightarrow> ts_node_eq a c"
  by (simp add: ts_node_eq_def)

text \<open>
  Between two Nodes, \<open>==\<close> holds exactly when both denote the same position of the same
  parse result, and \<open>!=\<close> is its negation; \<open>==\<close> is reflexive, symmetric and
  transitive, and two handles made for one position are equal although they are
  different objects.
\<close>

lemma node_compare_nodes:
  "node_compare s a (PyNode b) Py_EQ =
     PyBool (tsn_tree (node_node (nodes s a)) = tsn_tree (node_node (nodes s b)) \<and>
             tsn_id (node_node (nodes s a)) = tsn_id (node_node (nodes s b)))"
  "node_compare s a (PyNode b) Py_NE =
     PyBool (\<not> (tsn_tree (node_node (nodes s a)) = tsn_tree (node_node (nodes s b)) \<and>
                tsn_id (node_node (nodes s a)) = tsn_id (node_node (nodes s b))))"
  by (simp_all add: node_compare_def ts_node_eq_def node_is_instance_def node_addr_def)

lemma node_compare_eq_equivalence:
  "node_compare s a (PyNode a) Py_EQ = PyBool True"
  "node_compare s a (PyNode b) Py_EQ = node_compare s b (PyNode a) Py_EQ"
  "node_compare s a (PyNode b) Py_EQ = PyBool True \<Longrightarrow>
   node_compare s b (PyNode c) Py_EQ = PyBool True \<Longrightarrow>
   node_compare s a (PyNode c) Py_EQ = PyBool True"
  by (auto simp: node_compare_nodes)

lemma node_new_internal_equal:
  "node_compare (snd (node_new_internal (snd (node_new_internal s n t)) n t))
     (fst (node_new_internal s n t))
     (PyNode (fst (node_new_internal (snd (node_new_internal s n t)) n t))) Py_EQ = PyBool True \<and>
   fst (node_new_internal s n t) \<noteq> fst (node_new_internal (snd (node_new_internal s n t)) n t)"
  by (simp add: node_compare_nodes node_new_internal_def Let_def)

text \<open>
  C10. For every pair of Node handles, the four ordering comparisons return False and do
  not fail, also when both handles denote the same position: \<open>n <= n\<close> and \<open>n >= n\<close> are
  False although \<open>n == n\<close> is True.
\<close>

theorem node_compare_ordering_false:
  "node_compare s a (PyNode b) Py_LT = PyBool False \<and>
   node_compare s a (PyNode b) Py_LE = PyBool False \<and>
   node_compare s a (PyNode b) Py_GT = PyBool False \<and>
   node_compare s a (PyNode b) Py_GE = PyBool False \<and>
   node_compare s a (PyNode a) Py_LE = PyBool False \<and>
   node_compare s a (PyNode a) Py_GE = PyBool False \<and>
   node_compare s a (PyNode a) Py_EQ = PyBool True"
  by (simp add: node_compare_def ts_node_eq_def node_is_instance_def node_addr_def)

text \<open>
  C3 (the code at its failing input). Compared with a value that is not a Node,
  \<open>node_compare\<close> returns False for every operator: \<open>n == 5\<close> is False, and
  \<open>n != 5\<close> is False as well.
\<close>

theorem node_compare_non_node:
  "node_compare s a (PyLong 5) Py_NE = PyBool False \<and>
   node_compare s a (PyLong 5) Py_EQ = PyBool False \<and>
   node_compare s a PyNone Py_NE = PyBool False \<and>
   node_compare s a (PyUnicode ''n'') Py_NE = PyBool False"
  by (simp add: node_compare_def node_is_instance_def)

subsection \<open>Text of a tree and of its nodes\<close>

lemmas example_defs = example_store_def empty_store_def example_tree_def token_def pt_def

lemma filter_less_upt: "filter (\<lambda>i. i < n) [a..<b] = [a..<min b n]"
proof (induction b)
  case 0
  then show ?case by simp
next
  case (Suc b)
  show ?case
  proof (cases "a \<le> b")
    case True
    then show ?thesis
      using Suc by (cases "b < n") (auto simp: min_def)
  next
    case False
    then show ?thesis by simp
  qed
qed

lemma drop_take_nths: "m \<le> length xs \<Longrightarrow> drop a (take m xs) = map (\<lambda>i. xs ! i) [a..<m]"
  by (rule nth_equalityI) auto

text \<open>Python's slicing of the buffer is the slice of the specification.\<close>

lemma py_getslice_byte_slice: "py_getslice bs a b = byte_slice bs a b"
proof -
  have "drop a (take (min b (length bs)) bs) = map (\<lambda>i. bs ! i) [a..<min b (length bs)]"
    by (rule drop_take_nths) simp
  moreover have "py_getslice bs a b = drop a (take (min b (length bs)) bs)"
    unfolding py_getslice_def Let_def by (auto simp: drop_take min_def)
  ultimately show ?thesis
    by (simp add: byte_slice_def filter_less_upt)
qed

lemma parse_edit_args_empty: "parse_edit_args s [] [] = None"
  by (simp add: parse_edit_args_def bind_args_def tree_edit_keywords_def)

lemma parse_edit_args_short: "parse_edit_args s [v] [] = None"
  by (simp add: parse_edit_args_def bind_args_def tree_edit_keywords_def)

lemma parse_edit_args_example: "parse_edit_args s example_edit [] \<noteq> None"
  by (simp add: parse_edit_args_def bind_args_def tree_edit_keywords_def example_edit_def
        conv_I_def conv_II_def sequence_items_def)

text \<open>
  A point may be given as any sequence of two integers other than a bytes object: a
  memory view of two bytes is accepted, a bytes object of two bytes is not.
\<close>

lemma conv_II_sequences:
  "conv_II s (PyTuple [PyLong 0, PyLong 4]) = Some (0, 4) \<and>
   conv_II s (PyMemoryView [CHR 0x00, CHR 0x04]) = Some (0, 4) \<and>
   conv_II s (PyBytes [CHR 0x00, CHR 0x04]) = None \<and>
   conv_II s (PyUnicode ''04'') = None"
  by (simp add: conv_II_def sequence_items_def conv_I_def)

lemma tree_edit_fst: "fst (fst (tree_edit adjust s t args kwargs)) = PyNone"
  by (cases "parse_edit_args s args kwargs") (simp_all add: tree_edit_def Let_def)

lemma tree_edit_sets_flag:
  "snd (fst (tree_edit adjust s t args kwargs)) = None \<Longrightarrow>
   tree_edited (trees (snd (tree_edit adjust s t args kwargs)) t) = 1"
  by (cases "parse_edit_args s args kwargs") (simp_all add: tree_edit_def ts_tree_edit_def Let_def)

lemma tree_edit_nodes: "nodes (snd (tree_edit adjust s t args kwargs)) = nodes s"
  by (cases "parse_edit_args s args kwargs") (simp_all add: tree_edit_def ts_tree_edit_def Let_def)

lemma tree_edit_example_ok:
  "snd (fst (tree_edit adjust s t example_edit [])) = None"
  using parse_edit_args_example [of s]
  by (cases "parse_edit_args s example_edit []") (simp_all add: tree_edit_def Let_def)

text \<open>
  C1. The text of a Tree is its retained source buffer while the Tree is unedited and
  "unavailable" (\<open>None\<close>, not an error) once it is edited; the text of every Node of an
  edited Tree is "unavailable" as well, whatever the edit was (any call of \<open>edit\<close> that
  succeeds leads there); and the text of a Node of an unedited Tree is the byte slice
  \<open>[start_byte, end_byte)\<close> of the source buffer.
\<close>

theorem text_follows_edited_flag:
  "(tree_edited (trees s t) = 0 \<and> tree_source (trees s t) = Some src \<longrightarrow> tree_get_text s t = src) \<and>
   (tree_edited (trees s t) \<noteq> 0 \<longrightarrow> tree_get_text s t = PyNone) \<and>
   (tree_edited (trees s t) \<noteq> 0 \<and> node_tree (nodes s n) = Some t \<longrightarrow> node_get_text s n = Inr PyNone) \<and>
   (snd (fst (tree_edit adjust s t args kwargs)) = None \<longrightarrow>
      tree_get_text (snd (tree_edit adjust s t args kwargs)) t = PyNone \<and>
      (node_tree (nodes s n) = Some t \<longrightarrow>
         node_get_text (snd (tree_edit adjust s t args kwargs)) n = Inr PyNone)) \<and>
   (tree_edited (trees s t) = 0 \<and> tree_source (trees s t) = Some (PyBytes bs) \<and>
    node_tree (nodes s n) = Some t \<longrightarrow>
      node_get_text s n =
        Inr (PyMemoryView (byte_slice bs (unat (ts_node_start_byte s (node_node (nodes s n))))
                                         (unat (ts_node_end_byte s (node_node (nodes s n)))))))"
proof -
  have e: "snd (fst (tree_edit adjust s t args kwargs)) = None \<Longrightarrow>
      tree_edited (trees (snd (tree_edit adjust s t args kwargs)) t) \<noteq> 0"
    using tree_edit_sets_flag [of adjust s t args kwargs] by simp
  show ?thesis
    using e
    by (auto simp: tree_get_text_def node_get_text_def PyMemoryView_FromObject_def
                   py_getslice_byte_slice tree_edit_nodes)
qed

lemma example_node_5:
  "node_tree (nodes example_store 5) = Some 3 \<and> tree_edited (trees example_store 3) = 0 \<and>
   tree_source (trees example_store 3) = Some (PyBytes ''x = 1 + 2'') \<and>
   unat (ts_node_start_byte example_store (node_node (nodes example_store 5))) = 4 \<and>
   unat (ts_node_end_byte example_store (node_node (nodes example_store 5))) = 9"
  by (simp add: example_defs ts_node_start_byte_def ts_node_end_byte_def ts_node_subtree_def)

lemma example_slice: "byte_slice ''x = 1 + 2'' 4 9 = ''1 + 2''"
  by (simp add: py_getslice_byte_slice [symmetric] py_getslice_def)

theorem text_follows_edited_flag_witness:
  "tree_get_text example_store 3 = PyBytes ''x = 1 + 2'' \<and>
   node_get_text example_store 5 = Inr (PyMemoryView ''1 + 2'') \<and>
   tree_get_text (snd (tree_edit (\<lambda>r e. r) example_store 3 example_edit [])) 3 = PyNone \<and>
   node_get_text (snd (tree_edit (\<lambda>r e. r) example_store 3 example_edit [])) 5 = Inr PyNone"
  using text_follows_edited_flag
          [of example_store 3 "PyBytes ''x = 1 + 2''" 5 "\<lambda>r e. r" example_edit "[]" "''x = 1 + 2''"]
    example_node_5 example_slice tree_edit_example_ok [of "\<lambda>r e. r" example_store 3]
  by simp

subsection \<open>Editing a tree\<close>

text \<open>
  When the arguments parse, \<open>edit\<close> sets the flag of this Tree and touches no other
  Tree; when they do not, the store is unchanged.
\<close>

lemma tree_edit_success:
  "parse_edit_args s args kwargs = Some edit \<Longrightarrow>
   fst (tree_edit adjust s t args kwargs) = (PyNone, None) \<and>
   tree_edited (trees (snd (tree_edit adjust s t args kwargs)) t) = 1 \<and>
   (\<forall>u. u \<noteq> t \<longrightarrow> trees (snd (tree_edit adjust s t args kwargs)) u = trees s u)"
  by (simp add: tree_edit_def ts_tree_edit_def Let_def)

lemma tree_edit_failure:
  "parse_edit_args s args kwargs = None \<Longrightarrow>
   tree_edit adjust s t args kwargs = ((PyNone, Some (TypeError ''PyArg_ParseTupleAndKeywords'' [])), s)"
  by (simp add: tree_edit_def)

text \<open>
  The C function itself returns \<open>None\<close> on every call: when the argument parser fails,
  \<open>tree_edit\<close> still returns \<open>None\<close>, with the parser's exception pending, where
  \<open>query_captures\<close> returns \<open>NULL\<close>. It is the interpreter's check of the result that
  turns this into an error at the call.
\<close>

lemma tree_edit_returns_none:
  "fst (fst (tree_edit adjust s t args kwargs)) = PyNone \<and>
   tree_edit adjust s t [] [] = ((PyNone, Some (TypeError ''PyArg_ParseTupleAndKeywords'' [])), s) \<and>
   tree_edit adjust s t [PyUnicode ''a''] [] =
     ((PyNone, Some (TypeError ''PyArg_ParseTupleAndKeywords'' [])), s)"
  by (simp add: tree_edit_fst) (simp add: tree_edit_def parse_edit_args_empty parse_edit_args_short)

lemma tree_edit_call_success:
  "parse_edit_args s args kwargs = Some edit \<Longrightarrow>
   tree_edit_call adjust s t args kwargs =
     (Inr PyNone,
      s\<lparr>ts_trees := (ts_trees s)
           (tree_tree (trees s t) := map_option (\<lambda>r. adjust r edit) (ts_trees s (tree_tree (trees s t)))),
        trees := (trees s)(t := (trees s t)\<lparr>tree_edited := 1\<rparr>)\<rparr>)"
  by (simp add: tree_edit_call_def tree_edit_def ts_tree_edit_def Py_CheckFunctionResult_def Let_def)

lemma tree_edit_call_failure:
  "parse_edit_args s args kwargs = None \<Longrightarrow>
   tree_edit_call adjust s t args kwargs =
     (Inl (SystemError ''%R returned a result with an exception set''
             (Some (TypeError ''PyArg_ParseTupleAndKeywords'' []))), s)"
  by (simp add: tree_edit_call_def tree_edit_def Py_CheckFunctionResult_def)

lemma parse_edit_args_example_value:
  "parse_edit_args s example_edit [] =
     Some \<lparr>start_byte = 4, old_end_byte = 5, new_end_byte = 6,
           start_point = \<lparr>row = 0, column = 4\<rparr>,
           old_end_point = \<lparr>row = 0, column = 5\<rparr>,
           new_end_point = \<lparr>row = 0, column = 6\<rparr>\<rparr>"
  by (simp add: parse_edit_args_def bind_args_def tree_edit_keywords_def example_edit_def
        conv_I_def conv_II_def sequence_items_def)

text \<open>
  C9. A call \<open>tree.edit(...)\<close> succeeds exactly when its arguments parse. When it
  succeeds, whatever the coordinates of the edit and whatever the engine does with them,
  the \<open>edited\<close> flag of this Tree is set, the Tree keeps its parse result handle and its
  source, every other Tree is as before and no object is allocated (no new Tree). When
  the arguments are malformed the whole store, and so the flag and the tree, is unchanged,
  and the caller receives an error: the interpreter raises a SystemError from the
  argument parser's TypeError. The flag is therefore set by a call if and only if the
  call succeeds.
\<close>

theorem tree_edit_flag_iff_success:
  "(fst (tree_edit_call adjust s t args kwargs) = Inr PyNone \<longleftrightarrow> parse_edit_args s args kwargs \<noteq> None) \<and>
   (parse_edit_args s args kwargs = Some edit \<longrightarrow>
      fst (tree_edit_call adjust s t args kwargs) = Inr PyNone \<and>
      tree_edited (trees (snd (tree_edit_call adjust s t args kwargs)) t) = 1 \<and>
      tree_tree (trees (snd (tree_edit_call adjust s t args kwargs)) t) = tree_tree (trees s t) \<and>
      tree_source (trees (snd (tree_edit_call adjust s t args kwargs)) t) = tree_source (trees s t) \<and>
      (\<forall>u. u \<noteq> t \<longrightarrow> trees (snd (tree_edit_call adjust s t args kwargs)) u = trees s u) \<and>
      next_addr (snd (tree_edit_call adjust s t args kwargs)) = next_addr s \<and>
      ts_trees (snd (tree_edit_call adjust s t args kwargs)) =
        (ts_trees s)(tree_tree (trees s t) :=
           map_option (\<lambda>r. adjust r edit) (ts_trees s (tree_tree (trees s t))))) \<and>
   (parse_edit_args s args kwargs = None \<longrightarrow>
      tree_edit_call adjust s t args kwargs =
        (Inl (SystemError ''%R returned a result with an exception set''
                (Some (TypeError ''PyArg_ParseTupleAndKeywords'' []))), s)) \<and>
   (tree_edited (trees (snd (tree_edit_call adjust s t args kwargs)) t) \<noteq> tree_edited (trees s t) \<longrightarrow>
      fst (tree_edit_call adjust s t args kwargs) = Inr PyNone)"
proof (cases "parse_edit_args s args kwargs")
  case None
  then show ?thesis
    by (simp add: tree_edit_call_failure)
next
  case (Some e)
  then show ?thesis
    by (simp add: tree_edit_call_success)
qed

theorem tree_edit_flag_iff_success_witness:
  "tree_edited (trees example_store 3) = 0 \<and>
   fst (tree_edit_call (\<lambda>r e. r) example_store 3 example_edit []) = Inr PyNone \<and>
   tree_edited (trees (snd (tree_edit_call (\<lambda>r e. r) example_store 3 example_edit [])) 3) = 1 \<and>
   next_addr (snd (tree_edit_call (\<lambda>r e. r) example_store 3 example_edit [])) = 7 \<and>
   tree_edit_call (\<lambda>r e. r) example_store 3 [] [] =
     (Inl (SystemError ''%R returned a result with an exception set''
             (Some (TypeError ''PyArg_ParseTupleAndKeywords'' []))), example_store) \<and>
   tree_edit_call (\<lambda>r e. r) example_store 3 [PyUnicode ''a''] [] =
     (Inl (SystemError ''%R returned a result with an exception set''
             (Some (TypeError ''PyArg_ParseTupleAndKeywords'' []))), example_store)"
  using tree_edit_flag_iff_success
          [of "\<lambda>r e. r" example_store 3 example_edit "[]"
              "\<lparr>start_byte = 4, old_end_byte = 5, new_end_byte = 6,
                start_point = \<lparr>row = 0, column = 4\<rparr>,
                old_end_point = \<lparr>row = 0, column = 5\<rparr>,
                new_end_point = \<lparr>row = 0, column = 6\<rparr>\<rparr>"]
        tree_edit_flag_iff_success [of "\<lambda>r e. r" example_store 3 "[]" "[]"]
        tree_edit_flag_iff_success [of "\<lambda>r e. r" example_store 3 "[PyUnicode ''a'']" "[]"]
        parse_edit_args_example_value [of example_store]
        parse_edit_args_empty [of example_store]
        parse_edit_args_short [of example_store "PyUnicode ''a''"]
  by (simp add: example_store_def empty_store_def)

subsection \<open>Binding a language\<close>

text \<open>
  C6. For a Language \<open>L\<close> (an object whose \<open>language_id\<close> is a non-null integer \<open>l\<close>)
  \<open>set_language\<close> fails with the version error, which reports the version of \<open>L\<close> and
  the two bounds, exactly when the version lies outside the bounds, and then leaves the
  store (so the parser's binding) as it was; it succeeds exactly when the version is
  within the bounds, and then the engine parser is bound to \<open>l\<close> and no other parser is
  touched.
\<close>

theorem set_language_version_gate:
  assumes "PyObject_GetAttrString L ''language_id'' = Some i" and "PyLong_Check i"
    and "PyLong_AsVoidPtr i = l" and "l \<noteq> 0"
  shows "(fst (parser_set_language version_of lo hi s p L) =
            Inl (ValueError ''Incompatible Language version %u. Must not be between %u and %u''
                   [ArgU (unat (version_of l)), ArgU (unat lo), ArgU (unat hi)])
          \<longleftrightarrow> \<not> (lo \<le> version_of l \<and> version_of l \<le> hi)) \<and>
         (fst (parser_set_language version_of lo hi s p L) = Inr PyNone
          \<longleftrightarrow> lo \<le> version_of l \<and> version_of l \<le> hi) \<and>
         (\<not> (lo \<le> version_of l \<and> version_of l \<le> hi) \<longrightarrow>
            snd (parser_set_language version_of lo hi s p L) = s) \<and>
         (lo \<le> version_of l \<and> version_of l \<le> hi \<longrightarrow>
            tsp_language (parser_parser (parsers (snd (parser_set_language version_of lo hi s p L)) p)) = Some l \<and>
            (\<forall>q. q \<noteq> p \<longrightarrow> parsers (snd (parser_set_language version_of lo hi s p L)) q = parsers s q))"
  using assms
  by (auto simp: parser_set_language_def Let_def ts_parser_set_language_def not_le not_less)

lemma example_language:
  "PyObject_GetAttrString (PyInstance [(''language_id'', PyLong (int l))]) ''language_id'' = Some (PyLong (int l))
   \<and> PyLong_Check (PyLong (int l))"
  by (simp add: PyObject_GetAttrString_def PyLong_Check_def)

lemma example_pointers: "PyLong_AsVoidPtr (PyLong 200) = 200 \<and> PyLong_AsVoidPtr (PyLong 100) = 100"
  by (simp add: PyLong_AsVoidPtr_def)

theorem set_language_version_gate_witness:
  "fst (parser_set_language example_version 9 13 bound_store 1 (PyInstance [(''language_id'', PyLong 200)])) =
     Inl (ValueError ''Incompatible Language version %u. Must not be between %u and %u''
            [ArgU 0, ArgU 9, ArgU 13]) \<and>
   snd (parser_set_language example_version 9 13 bound_store 1 (PyInstance [(''language_id'', PyLong 200)])) =
     bound_store \<and>
   tsp_language (parser_parser (parsers bound_store 1)) = Some 100 \<and>
   fst (parser_set_language example_version 9 13 empty_store 1 (PyInstance [(''language_id'', PyLong 100)])) =
     Inr PyNone \<and>
   tsp_language (parser_parser (parsers
     (snd (parser_set_language example_version 9 13 empty_store 1 (PyInstance [(''language_id'', PyLong 100)]))) 1)) =
     Some 100"
  using set_language_version_gate
          [of "PyInstance [(''language_id'', PyLong 200)]" "PyLong 200" 200 example_version 9 13 bound_store 1]
        set_language_version_gate
          [of "PyInstance [(''language_id'', PyLong 100)]" "PyLong 100" 100 example_version 9 13 empty_store 1]
        example_language [of 200] example_language [of 100] example_pointers
  by (simp add: example_version_def bound_store_def empty_store_def)

subsection \<open>Parsing\<close>

lemma parse_with_not_bytes:
  "\<not> PyBytes_Check v \<Longrightarrow>
   parse_with engine s p v old = (Inl (TypeError ''First argument to parse must be bytes'' []), s)"
  by (simp add: parse_with_def)

lemma parse_with_not_tree:
  "\<not> tree_is_instance w \<Longrightarrow>
   parse_with engine s p (PyBytes src) (Some w) =
     (Inl (TypeError ''Second argument to parse must be a Tree'' []), s)"
  by (simp add: parse_with_def PyBytes_Check_def)

lemma parse_with_failure:
  assumes "old = None \<or> old = Some (PyTree t)"
    and "engine (parser_parser (parsers s p)) (ts_trees s) (old_tree_pointer s old) src (length src) = None"
  shows "parse_with engine s p (PyBytes src) old = (Inl (ValueError ''Parsing failed'' []), s)"
  using assms
  by (auto simp: parse_with_def PyBytes_Check_def PyBytes_AsString_def tree_is_instance_def tree_addr_def
        ts_parser_parse_string_def old_tree_pointer_def)

lemma parse_with_success:
  assumes "old = None \<or> old = Some (PyTree t)"
    and "engine (parser_parser (parsers s p)) (ts_trees s) (old_tree_pointer s old) src (length src) = Some r"
  shows "parse_with engine s p (PyBytes src) old =
      (Inr (PyTree (Suc (next_addr s))),
       s\<lparr>ts_trees := (ts_trees s)(next_addr s := Some r),
         trees := (trees s)(Suc (next_addr s) :=
            \<lparr>tree_tree = next_addr s, tree_source = Some (PyBytes src), tree_edited = 0\<rparr>),
         next_addr := Suc (Suc (next_addr s))\<rparr>)"
  using assms
  by (auto simp: parse_with_def PyBytes_Check_def PyBytes_AsString_def tree_is_instance_def tree_addr_def
        ts_parser_parse_string_def old_tree_pointer_def tree_new_internal_def Let_def)

lemma parse_with_outcome:
  assumes "oa = None \<or> oa = Some (PyTree t)"
  shows
    "(fst (parse_with engine s p (PyBytes src) oa) = Inl (ValueError ''Parsing failed'' []) \<longleftrightarrow>
         engine (parser_parser (parsers s p)) (ts_trees s) (old_tree_pointer s oa) src (length src) = None) \<and>
      (engine (parser_parser (parsers s p)) (ts_trees s) (old_tree_pointer s oa) src (length src) = None \<longrightarrow>
         snd (parse_with engine s p (PyBytes src) oa) = s) \<and>
      (\<forall>r. engine (parser_parser (parsers s p)) (ts_trees s) (old_tree_pointer s oa) src (length src) = Some r \<longrightarrow>
         fst (parse_with engine s p (PyBytes src) oa) = Inr (PyTree (Suc (next_addr s))) \<and>
         trees (snd (parse_with engine s p (PyBytes src) oa)) (Suc (next_addr s)) =
           \<lparr>tree_tree = next_addr s, tree_source = Some (PyBytes src), tree_edited = 0\<rparr> \<and>
         ts_trees (snd (parse_with engine s p (PyBytes src) oa)) (next_addr s) = Some r \<and>
         next_addr (snd (parse_with engine s p (PyBytes src) oa)) = Suc (Suc (next_addr s)) \<and>
         (\<forall>a. a \<noteq> Suc (next_addr s) \<longrightarrow> trees (snd (parse_with engine s p (PyBytes src) oa)) a = trees s a) \<and>
         (\<forall>a. a \<noteq> next_addr s \<longrightarrow> ts_trees (snd (parse_with engine s p (PyBytes src) oa)) a = ts_trees s a) \<and>
         nodes (snd (parse_with engine s p (PyBytes src) oa)) = nodes s \<and>
         parsers (snd (parse_with engine s p (PyBytes src) oa)) = parsers s)"
proof (cases "engine (parser_parser (parsers s p)) (ts_trees s) (old_tree_pointer s oa) src (length src)")
  case None
  then show ?thesis
    by (simp add: parse_with_failure [OF assms])
next
  case (Some r)
  then show ?thesis
    by (simp add: parse_with_success [OF assms])
qed

text \<open>
  C7. A source that is not bytes, or a second argument that is not a Tree, fails with a
  TypeError and an unchanged store, whatever the engine is (it is not consulted). With
  a bytes source and no old tree or an old Tree, \<open>parse\<close> fails with "Parsing failed"
  exactly when the engine yields no result, and the store is then unchanged. When the
  engine yields a result, \<open>parse\<close> returns a Tree at a fresh address that holds the new
  parse result and the given source and has \<open>edited = 0\<close>; every other Tree, every
  other parse result, every Node and every Parser is as before.
\<close>

theorem parse_outcome:
  "(\<not> PyBytes_Check v \<longrightarrow>
      parser_parse engine s p [v] = (Inl (TypeError ''First argument to parse must be bytes'' []), s) \<and>
      parser_parse engine s p [v, w] = (Inl (TypeError ''First argument to parse must be bytes'' []), s)) \<and>
   (\<not> tree_is_instance w \<longrightarrow>
      parser_parse engine s p [PyBytes src, w] =
        (Inl (TypeError ''Second argument to parse must be a Tree'' []), s)) \<and>
   ((args = [PyBytes src] \<and> old = None \<or>
     args = [PyBytes src, PyTree t] \<and> old = Some (tree_tree (trees s t))) \<longrightarrow>
      (fst (parser_parse engine s p args) = Inl (ValueError ''Parsing failed'' []) \<longleftrightarrow>
         engine (parser_parser (parsers s p)) (ts_trees s) old src (length src) = None) \<and>
      (engine (parser_parser (parsers s p)) (ts_trees s) old src (length src) = None \<longrightarrow>
         snd (parser_parse engine s p args) = s) \<and>
      (\<forall>r. engine (parser_parser (parsers s p)) (ts_trees s) old src (length src) = Some r \<longrightarrow>
         fst (parser_parse engine s p args) = Inr (PyTree (Suc (next_addr s))) \<and>
         trees (snd (parser_parse engine s p args)) (Suc (next_addr s)) =
           \<lparr>tree_tree = next_addr s, tree_source = Some (PyBytes src), tree_edited = 0\<rparr> \<and>
         ts_trees (snd (parser_parse engine s p args)) (next_addr s) = Some r \<and>
         next_addr (snd (parser_parse engine s p args)) = Suc (Suc (next_addr s)) \<and>
         (\<forall>a. a \<noteq> Suc (next_addr s) \<longrightarrow> trees (snd (parser_parse engine s p args)) a = trees s a) \<and>
         (\<forall>a. a \<noteq> next_addr s \<longrightarrow> ts_trees (snd (parser_parse engine s p args)) a = ts_trees s a) \<and>
         nodes (snd (parser_parse engine s p args)) = nodes s \<and>
         parsers (snd (parser_parse engine s p args)) = parsers s))"
proof -
  have a: "\<not> PyBytes_Check v \<longrightarrow>
      parser_parse engine s p [v] = (Inl (TypeError ''First argument to parse must be bytes'' []), s) \<and>
      parser_parse engine s p [v, w] = (Inl (TypeError ''First argument to parse must be bytes'' []), s)"
    by (simp add: parser_parse_def parse_with_not_bytes)
  have b: "\<not> tree_is_instance w \<longrightarrow>
      parser_parse engine s p [PyBytes src, w] =
        (Inl (TypeError ''Second argument to parse must be a Tree'' []), s)"
    by (simp add: parser_parse_def parse_with_not_tree)
  have c: "(args = [PyBytes src] \<and> old = None \<or>
     args = [PyBytes src, PyTree t] \<and> old = Some (tree_tree (trees s t))) \<longrightarrow>
      (fst (parser_parse engine s p args) = Inl (ValueError ''Parsing failed'' []) \<longleftrightarrow>
         engine (parser_parser (parsers s p)) (ts_trees s) old src (length src) = None) \<and>
      (engine (parser_parser (parsers s p)) (ts_trees s) old src (length src) = None \<longrightarrow>
         snd (parser_parse engine s p args) = s) \<and>
      (\<forall>r. engine (parser_parser (parsers s p)) (ts_trees s) old src (length src) = Some r \<longrightarrow>
         fst (parser_parse engine s p args) = Inr (PyTree (Suc (next_addr s))) \<and>
         trees (snd (parser_parse engine s p args)) (Suc (next_addr s)) =
           \<lparr>tree_tree = next_addr s, tree_source = Some (PyBytes src), tree_edited = 0\<rparr> \<and>
         ts_trees (snd (parser_parse engine s p args)) (next_addr s) = Some r \<and>
         next_addr (snd (parser_parse engine s p args)) = Suc (Suc (next_addr s)) \<and>
         (\<forall>a. a \<noteq> Suc (next_addr s) \<longrightarrow> trees (snd (parser_parse engine s p args)) a = trees s a) \<and>
         (\<forall>a. a \<noteq> next_addr s \<longrightarrow> ts_trees (snd (parser_parse engine s p args)) a = ts_trees s a) \<and>
         nodes (snd (parser_parse engine s p args)) = nodes s \<and>
         parsers (snd (parser_parse engine s p args)) = parsers s)"
  proof (rule impI)
    assume shape: "args = [PyBytes src] \<and> old = None \<or>
       args = [PyBytes src, PyTree t] \<and> old = Some (tree_tree (trees s t))"
    then have "\<exists>oa. (oa = None \<or> oa = Some (PyTree t)) \<and>
        parser_parse engine s p args = parse_with engine s p (PyBytes src) oa \<and>
        old = old_tree_pointer s oa"
    proof (elim disjE conjE)
      assume "args = [PyBytes src]" "old = None"
      then show ?thesis
        by (intro exI [of _ None]) (simp add: parser_parse_def old_tree_pointer_def)
    next
      assume "args = [PyBytes src, PyTree t]" "old = Some (tree_tree (trees s t))"
      then show ?thesis
        by (intro exI [of _ "Some (PyTree t)"]) (simp add: parser_parse_def old_tree_pointer_def)
    qed
    then obtain oa where oa: "oa = None \<or> oa = Some (PyTree t)"
        "parser_parse engine s p args = parse_with engine s p (PyBytes src) oa"
        "old = old_tree_pointer s oa"
      by blast
    show "(fst (parser_parse engine s p args) = Inl (ValueError ''Parsing failed'' []) \<longleftrightarrow>
         engine (parser_parser (parsers s p)) (ts_trees s) old src (length src) = None) \<and>
      (engine (parser_parser (parsers s p)) (ts_trees s) old src (length src) = None \<longrightarrow>
         snd (parser_parse engine s p args) = s) \<and>
      (\<forall>r. engine (parser_parser (parsers s p)) (ts_trees s) old src (length src) = Some r \<longrightarrow>
         fst (parser_parse engine s p args) = Inr (PyTree (Suc (next_addr s))) \<and>
         trees (snd (parser_parse engine s p args)) (Suc (next_addr s)) =
           \<lparr>tree_tree = next_addr s, tree_source = Some (PyBytes src), tree_edited = 0\<rparr> \<and>
         ts_trees (snd (parser_parse engine s p args)) (next_addr s) = Some r \<and>
         next_addr (snd (parser_parse engine s p args)) = Suc (Suc (next_addr s)) \<and>
         (\<forall>a. a \<noteq> Suc (next_addr s) \<longrightarrow> trees (snd (parser_parse engine s p args)) a = trees s a) \<and>
         (\<forall>a. a \<noteq> next_addr s \<longrightarrow> ts_trees (snd (parser_parse engine s p args)) a = ts_trees s a) \<and>
         nodes (snd (parser_parse engine s p args)) = nodes s \<and>
         parsers (snd (parser_parse engine s p args)) = parsers s)"
      unfolding oa(2,3) by (rule parse_with_outcome [OF oa(1)])
  qed
  show ?thesis
    by (rule conjI [OF a conjI [OF b c]])
qed

lemma example_parse_engine:
  "example_engine (parser_parser (parsers example_store 1)) (ts_trees example_store)
     (Some (tree_tree (trees example_store 3))) ''x = 1 + 2'' (length ''x = 1 + 2'') = Some example_tree \<and>
   example_engine (parser_parser (parsers example_store 1)) (ts_trees example_store)
     None ''?'' (length ''?'') = None \<and>
   next_addr example_store = 7 \<and>
   \<not> PyBytes_Check (PyUnicode ''x = 1 + 2'') \<and> \<not> tree_is_instance PyNone"
  by (simp add: example_engine_def example_store_def empty_store_def PyBytes_Check_def tree_is_instance_def)

theorem parse_outcome_witness:
  "fst (parser_parse example_engine example_store 1 [PyBytes ''x = 1 + 2'', PyTree 3]) = Inr (PyTree 8) \<and>
   trees (snd (parser_parse example_engine example_store 1 [PyBytes ''x = 1 + 2'', PyTree 3])) 8 =
     \<lparr>tree_tree = 7, tree_source = Some (PyBytes ''x = 1 + 2''), tree_edited = 0\<rparr> \<and>
   trees (snd (parser_parse example_engine example_store 1 [PyBytes ''x = 1 + 2'', PyTree 3])) 3 =
     trees example_store 3 \<and>
   ts_trees (snd (parser_parse example_engine example_store 1 [PyBytes ''x = 1 + 2'', PyTree 3])) 2 =
     ts_trees example_store 2 \<and>
   parser_parse example_engine example_store 1 [PyBytes ''?''] =
     (Inl (ValueError ''Parsing failed'' []), example_store) \<and>
   parser_parse example_engine example_store 1 [PyUnicode ''x = 1 + 2''] =
     (Inl (TypeError ''First argument to parse must be bytes'' []), example_store) \<and>
   parser_parse example_engine example_store 1 [PyBytes ''x = 1 + 2'', PyNone] =
     (Inl (TypeError ''Second argument to parse must be a Tree'' []), example_store)"
proof -
  note two = parse_outcome [of "PyUnicode ''x = 1 + 2''" example_engine example_store 1 PyNone
      "''x = 1 + 2''" "[PyBytes ''x = 1 + 2'', PyTree 3]" "Some (tree_tree (trees example_store 3))" 3]
  note one = parse_outcome [of "PyUnicode ''x = 1 + 2''" example_engine example_store 1 PyNone
      "''?''" "[PyBytes ''?'']" None 3]
  have f: "snd (parser_parse example_engine example_store 1 [PyBytes ''?'']) = example_store"
      "fst (parser_parse example_engine example_store 1 [PyBytes ''?'']) = Inl (ValueError ''Parsing failed'' [])"
    using one example_parse_engine by simp_all
  have g: "parser_parse example_engine example_store 1 [PyBytes ''?''] =
     (Inl (ValueError ''Parsing failed'' []), example_store)"
    using f by (simp add: prod_eq_iff)
  show ?thesis
    using two example_parse_engine g by simp
qed

subsection \<open>The cursor's cached node\<close>

lemma goto_parent_shape:
  "tree_cursor_goto_parent s self =
     cursor_moved s self (ts_tree_cursor_goto_parent (cursor_cursor (cursors s self)))"
  by (simp add: tree_cursor_goto_parent_def cursor_moved_def)

lemma goto_first_child_shape:
  "tree_cursor_goto_first_child s self =
     cursor_moved s self (ts_tree_cursor_goto_first_child s (cursor_cursor (cursors s self)))"
  by (simp add: tree_cursor_goto_first_child_def cursor_moved_def)

lemma goto_next_sibling_shape:
  "tree_cursor_goto_next_sibling s self =
     cursor_moved s self (ts_tree_cursor_goto_next_sibling s (cursor_cursor (cursors s self)))"
  by (simp add: tree_cursor_goto_next_sibling_def cursor_moved_def)

lemma cursor_moved_True:
  "cursor_moved s c (True, cur) =
     (PyBool True, s\<lparr>cursors := (cursors s)(c := (cursors s c)\<lparr>cursor_cursor := cur, cursor_node := None\<rparr>)\<rparr>)"
  by (simp add: cursor_moved_def)

lemma cursor_moved_False:
  "cursor_moved s c (False, cursor_cursor (cursors s c)) = (PyBool False, s)"
  by (simp add: cursor_moved_def)

lemma goto_parent_cases:
  "ts_tree_cursor_goto_parent cur = (False, cur) \<or>
   (\<exists>cur'. ts_tree_cursor_goto_parent cur = (True, cur'))"
  by (simp add: ts_tree_cursor_goto_parent_def)

lemma goto_first_child_cases:
  "ts_tree_cursor_goto_first_child s cur = (False, cur) \<or>
   (\<exists>cur'. ts_tree_cursor_goto_first_child s cur = (True, cur'))"
  by (simp add: ts_tree_cursor_goto_first_child_def)

lemma goto_next_sibling_cases:
  "ts_tree_cursor_goto_next_sibling s cur = (False, cur) \<or>
   (\<exists>cur'. ts_tree_cursor_goto_next_sibling s cur = (True, cur'))"
  by (simp add: ts_tree_cursor_goto_next_sibling_def)

lemma goto_parent_nav:
  "tree_cursor_goto_parent s c = (PyBool False, s) \<or>
   (\<exists>cur. tree_cursor_goto_parent s c =
      (PyBool True,
       s\<lparr>cursors := (cursors s)(c := (cursors s c)\<lparr>cursor_cursor := cur, cursor_node := None\<rparr>)\<rparr>))"
  using goto_parent_cases [of "cursor_cursor (cursors s c)"]
  by (auto simp: goto_parent_shape cursor_moved_True cursor_moved_False)

lemma goto_first_child_nav:
  "tree_cursor_goto_first_child s c = (PyBool False, s) \<or>
   (\<exists>cur. tree_cursor_goto_first_child s c =
      (PyBool True,
       s\<lparr>cursors := (cursors s)(c := (cursors s c)\<lparr>cursor_cursor := cur, cursor_node := None\<rparr>)\<rparr>))"
  using goto_first_child_cases [of s "cursor_cursor (cursors s c)"]
  by (auto simp: goto_first_child_shape cursor_moved_True cursor_moved_False)

lemma goto_next_sibling_nav:
  "tree_cursor_goto_next_sibling s c = (PyBool False, s) \<or>
   (\<exists>cur. tree_cursor_goto_next_sibling s c =
      (PyBool True,
       s\<lparr>cursors := (cursors s)(c := (cursors s c)\<lparr>cursor_cursor := cur, cursor_node := None\<rparr>)\<rparr>))"
  using goto_next_sibling_cases [of s "cursor_cursor (cursors s c)"]
  by (auto simp: goto_next_sibling_shape cursor_moved_True cursor_moved_False)

lemma navigation_cases:
  assumes "nav = tree_cursor_goto_parent \<or> nav = tree_cursor_goto_first_child \<or>
           nav = tree_cursor_goto_next_sibling"
  shows "nav s c = (PyBool False, s) \<or>
         (\<exists>cur. nav s c =
            (PyBool True,
             s\<lparr>cursors := (cursors s)(c := (cursors s c)\<lparr>cursor_cursor := cur, cursor_node := None\<rparr>)\<rparr>))"
  using assms goto_parent_nav [of s c] goto_first_child_nav [of s c] goto_next_sibling_nav [of s c]
  by (elim disjE) simp_all

lemma get_node_cached:
  "cursor_node (cursors s c) = Some n \<Longrightarrow> tree_cursor_get_node s c = (PyNode n, s)"
  by (simp add: tree_cursor_get_node_def)

lemma get_node_empty:
  "cursor_node (cursors s c) = None \<Longrightarrow>
   tree_cursor_get_node s c =
     (PyNode (next_addr s),
      s\<lparr>nodes := (nodes s)(next_addr s :=
           \<lparr>node_node = ts_tree_cursor_current_node (cursor_cursor (cursors s c)),
            node_children = None, node_tree = cursor_tree (cursors s c)\<rparr>),
        next_addr := Suc (next_addr s),
        cursors := (cursors s)(c := (cursors s c)\<lparr>cursor_node := Some (next_addr s)\<rparr>)\<rparr>)"
  by (simp add: tree_cursor_get_node_def node_new_internal_def Let_def)

text \<open>
  C4. Each of the three navigation methods returns True or False. When it returns True
  the cached Node is cleared, and the next read of \<open>node\<close> derives a new Node from the
  cursor's new state. When it returns False the store is unchanged: the cached Node and
  the cursor position are as before. The read-only accessors never invalidate the cache
  and never move the cursor: \<open>node\<close> returns the cached Node and changes nothing when
  there is one, derives and caches one when there is none (after it the cache is never
  empty), and \<open>current_field_name\<close> changes nothing.
\<close>

theorem cursor_cache_discipline:
  assumes "nav = tree_cursor_goto_parent \<or> nav = tree_cursor_goto_first_child \<or>
           nav = tree_cursor_goto_next_sibling"
  shows "(fst (nav s c) = PyBool True \<or> fst (nav s c) = PyBool False) \<and>
         (fst (nav s c) = PyBool True \<longrightarrow>
            cursor_node (cursors (snd (nav s c)) c) = None \<and>
            fst (tree_cursor_get_node (snd (nav s c)) c) = PyNode (next_addr (snd (nav s c))) \<and>
            node_node (nodes (snd (tree_cursor_get_node (snd (nav s c)) c)) (next_addr (snd (nav s c)))) =
              ts_tree_cursor_current_node (cursor_cursor (cursors (snd (nav s c)) c))) \<and>
         (fst (nav s c) = PyBool False \<longrightarrow> snd (nav s c) = s) \<and>
         cursor_cursor (cursors (snd (tree_cursor_get_node s c)) c) = cursor_cursor (cursors s c) \<and>
         (cursor_node (cursors s c) = Some n \<longrightarrow> tree_cursor_get_node s c = (PyNode n, s)) \<and>
         (cursor_node (cursors s c) = None \<longrightarrow>
            fst (tree_cursor_get_node s c) = PyNode (next_addr s) \<and>
            cursor_node (cursors (snd (tree_cursor_get_node s c)) c) = Some (next_addr s) \<and>
            node_node (nodes (snd (tree_cursor_get_node s c)) (next_addr s)) =
              ts_tree_cursor_current_node (cursor_cursor (cursors s c))) \<and>
         cursor_node (cursors (snd (tree_cursor_get_node s c)) c) \<noteq> None \<and>
         snd (tree_cursor_current_field_name field s c) = s"
proof -
  have nav: "(fst (nav s c) = PyBool True \<or> fst (nav s c) = PyBool False) \<and>
         (fst (nav s c) = PyBool True \<longrightarrow>
            cursor_node (cursors (snd (nav s c)) c) = None \<and>
            fst (tree_cursor_get_node (snd (nav s c)) c) = PyNode (next_addr (snd (nav s c))) \<and>
            node_node (nodes (snd (tree_cursor_get_node (snd (nav s c)) c)) (next_addr (snd (nav s c)))) =
              ts_tree_cursor_current_node (cursor_cursor (cursors (snd (nav s c)) c))) \<and>
         (fst (nav s c) = PyBool False \<longrightarrow> snd (nav s c) = s)"
    using navigation_cases [OF assms, of s c]
  proof (elim disjE exE)
    assume "nav s c = (PyBool False, s)"
    then show ?thesis by simp
  next
    fix cur
    assume "nav s c =
      (PyBool True, s\<lparr>cursors := (cursors s)(c := (cursors s c)\<lparr>cursor_cursor := cur, cursor_node := None\<rparr>)\<rparr>)"
    then show ?thesis by (simp add: get_node_empty)
  qed
  have acc: "cursor_cursor (cursors (snd (tree_cursor_get_node s c)) c) = cursor_cursor (cursors s c) \<and>
         (cursor_node (cursors s c) = Some n \<longrightarrow> tree_cursor_get_node s c = (PyNode n, s)) \<and>
         (cursor_node (cursors s c) = None \<longrightarrow>
            fst (tree_cursor_get_node s c) = PyNode (next_addr s) \<and>
            cursor_node (cursors (snd (tree_cursor_get_node s c)) c) = Some (next_addr s) \<and>
            node_node (nodes (snd (tree_cursor_get_node s c)) (next_addr s)) =
              ts_tree_cursor_current_node (cursor_cursor (cursors s c))) \<and>
         cursor_node (cursors (snd (tree_cursor_get_node s c)) c) \<noteq> None"
    by (cases "cursor_node (cursors s c)") (simp_all add: get_node_cached get_node_empty)
  have fld: "snd (tree_cursor_current_field_name field s c) = s"
    by (simp add: tree_cursor_current_field_name_def split: option.splits)
  show ?thesis
    using nav acc fld by simp
qed

lemma cached_store_eq:
  "cached_store =
     example_store
       \<lparr>nodes := (nodes example_store)
          (7 := \<lparr>node_node = \<lparr>tsn_id = Some [], tsn_tree = 2\<rparr>, node_children = None, node_tree = Some 3\<rparr>),
        next_addr := 8,
        cursors := (cursors example_store)
          (6 := \<lparr>cursor_cursor = \<lparr>tc_tree = 2, tc_root = Some [], tc_stack = []\<rparr>,
                  cursor_node = Some 7, cursor_tree = Some 3\<rparr>)\<rparr>"
  by (simp add: cached_store_def tree_cursor_get_node_def node_new_internal_def
        ts_tree_cursor_current_node_def example_store_def empty_store_def Let_def)

lemma cached_store_facts:
  "fst (tree_cursor_goto_first_child cached_store 6) = PyBool True \<and>
   fst (tree_cursor_goto_parent cached_store 6) = PyBool False \<and>
   fst (tree_cursor_goto_next_sibling cached_store 6) = PyBool False \<and>
   cursor_node (cursors cached_store 6) = Some 7 \<and>
   next_addr (snd (tree_cursor_goto_first_child cached_store 6)) = 8 \<and>
   ts_tree_cursor_current_node (cursor_cursor (cursors (snd (tree_cursor_goto_first_child cached_store 6)) 6)) =
     \<lparr>tsn_id = Some [0], tsn_tree = 2\<rparr>"
  by (simp add: cached_store_eq goto_first_child_shape goto_parent_shape
        goto_next_sibling_shape cursor_moved_def ts_tree_cursor_goto_first_child_def
        ts_tree_cursor_goto_parent_def ts_tree_cursor_goto_next_sibling_def
        ts_tree_cursor_current_node_def ts_node_child_count_def ts_node_subtree_def
        example_defs Let_def)

lemma example_cursor_facts:
  "cursor_node (cursors example_store 6) = None \<and> next_addr example_store = 7 \<and>
   ts_tree_cursor_current_node (cursor_cursor (cursors example_store 6)) =
     \<lparr>tsn_id = Some [], tsn_tree = 2\<rparr>"
  by (simp add: example_store_def empty_store_def ts_tree_cursor_current_node_def)

theorem cursor_cache_discipline_witness:
  "cursor_node (cursors cached_store 6) = Some 7 \<and>
   fst (tree_cursor_goto_first_child cached_store 6) = PyBool True \<and>
   cursor_node (cursors (snd (tree_cursor_goto_first_child cached_store 6)) 6) = None \<and>
   fst (tree_cursor_get_node (snd (tree_cursor_goto_first_child cached_store 6)) 6) = PyNode 8 \<and>
   node_node (nodes (snd (tree_cursor_get_node (snd (tree_cursor_goto_first_child cached_store 6)) 6)) 8) =
     \<lparr>tsn_id = Some [0], tsn_tree = 2\<rparr> \<and>
   tree_cursor_goto_parent cached_store 6 = (PyBool False, cached_store) \<and>
   tree_cursor_goto_next_sibling cached_store 6 = (PyBool False, cached_store) \<and>
   tree_cursor_get_node cached_store 6 = (PyNode 7, cached_store) \<and>
   cursor_node (cursors example_store 6) = None \<and>
   fst (tree_cursor_get_node example_store 6) = PyNode 7 \<and>
   cursor_node (cursors (snd (tree_cursor_get_node example_store 6)) 6) = Some 7 \<and>
   node_node (nodes (snd (tree_cursor_get_node example_store 6)) 7) = \<lparr>tsn_id = Some [], tsn_tree = 2\<rparr> \<and>
   cursor_cursor (cursors (snd (tree_cursor_get_node example_store 6)) 6) =
     cursor_cursor (cursors example_store 6)"
  using cursor_cache_discipline [of tree_cursor_goto_first_child cached_store 6 7]
        cursor_cache_discipline [of tree_cursor_goto_parent cached_store 6 7]
        cursor_cache_discipline [of tree_cursor_goto_next_sibling cached_store 6 7]
        cursor_cache_discipline [of tree_cursor_goto_parent example_store 6 7]
        cached_store_facts example_cursor_facts
  by (simp add: prod_eq_iff)

subsection \<open>Errors of query compilation\<close>

lemma word_end_loop_step:
  "word_end_loop source len i =
     (if i < len \<and> is_identifier_char (char_at source i) then word_end_loop source len (Suc i) else i)"
  by (subst word_end_loop.simps) (simp add: is_identifier_char_def)

lemma word_end_loop_takeWhile:
  "i \<le> length source \<Longrightarrow> len = length source \<Longrightarrow>
   word_end_loop source len i = i + length (takeWhile is_identifier_char (drop i source))"
proof (induction source len i rule: word_end_loop.induct)
  case (1 source len i)
  show ?case
  proof (cases "i < len")
    case False
    then show ?thesis
      using 1(2,3) by (subst word_end_loop_step) simp
  next
    case True
    then have d: "drop i source = source ! i # drop (Suc i) source" and c: "char_at source i = source ! i"
      using 1(3) by (simp_all add: Cons_nth_drop_Suc char_at_def)
    show ?thesis
    proof (cases "is_identifier_char (source ! i)")
      case False
      then show ?thesis
        by (subst word_end_loop_step) (simp add: c d)
    next
      case ident: True
      have cond: "i < len \<and>
         (iswalnum (char_at source i) \<or> char_at source i = CHR ''-'' \<or>
          char_at source i = CHR ''_'' \<or> char_at source i = CHR ''?'' \<or>
          char_at source i = CHR ''.'')"
        using True ident c by (simp add: is_identifier_char_def)
      have "word_end_loop source len (Suc i) =
          Suc i + length (takeWhile is_identifier_char (drop (Suc i) source))"
        using 1(1) [OF cond] True 1(3) by simp
      then show ?thesis
        using True ident by (subst word_end_loop_step) (simp add: c d)
    qed
  qed
qed

lemma not_identifier_NUL: "\<not> is_identifier_char (CHR 0x00)"
  by (simp add: is_identifier_char_def iswalnum_def)

lemma c_string_cut:
  assumes "offset \<le> length source"
  shows "c_string (drop offset
            ((source @ [CHR 0x00])
               [offset + length (takeWhile is_identifier_char (drop offset source)) := CHR 0x00])) =
         identifier_token source offset"
proof -
  let ?ys = "drop offset source"
  let ?tw = "takeWhile is_identifier_char ?ys"
  let ?rest = "dropWhile is_identifier_char ?ys"
  have ys: "?ys = ?tw @ ?rest" by simp
  have "drop offset ((source @ [CHR 0x00])[offset + length ?tw := CHR 0x00]) =
        (drop offset (source @ [CHR 0x00]))[length ?tw := CHR 0x00]"
    by (simp add: drop_update_swap)
  also have "drop offset (source @ [CHR 0x00]) = ?tw @ (?rest @ [CHR 0x00])"
    using assms by simp
  also have "(?tw @ (?rest @ [CHR 0x00]))[length ?tw := CHR 0x00] = ?tw @ (CHR 0x00 # tl (?rest @ [CHR 0x00]))"
    by (cases "?rest @ [CHR 0x00]") (simp_all add: list_update_append)
  finally have e: "drop offset ((source @ [CHR 0x00])[offset + length ?tw := CHR 0x00]) =
      ?tw @ (CHR 0x00 # tl (?rest @ [CHR 0x00]))" .
  have nz: "\<And>x. x \<in> set ?tw \<Longrightarrow> x \<noteq> CHR 0x00"
    using not_identifier_NUL by (metis set_takeWhileD)
  show ?thesis
    unfolding e c_string_def identifier_token_def
    by (simp add: takeWhile_append2 nz)
qed

lemma example_token_b: "identifier_token ''(a b)'' 3 = ''b''"
  by (simp add: identifier_token_def is_identifier_char_def iswalnum_def)

text \<open>
  C8, as stated, fails for the syntax error: the error reports the byte offset and does
  not name the token at that offset (here the token is \<open>b\<close>).
\<close>

theorem query_syntax_error_omits_token:
  "fst (query_new_internal (\<lambda>l src n. Inl (3, TSQueryErrorSyntax)) empty_store 1 ''(a b)'' 5) =
     Inl (SyntaxError ''Invalid syntax at offset %u'' [ArgU 3]) \<and>
   identifier_token ''(a b)'' 3 = ''b''"
  by (simp add: query_new_internal_def ts_query_new_def Let_def example_token_b)


text \<open>
  C8, amended. When compilation fails at an offset within the pattern source, the error
  of an unknown node type, field or capture is a NameError whose message says which of
  the three it is and names exactly the identifier token at the offset, not the rest of
  the source; every other failure is a SyntaxError that reports the offset. In
  particular the unknown node type \<open>totally_bogus_node\<close> is named exactly.
\<close>

theorem query_error_names_token:
  assumes "compile language source (length source) = Inl (offset, kind)"
    and "offset \<le> length source"
  shows "fst (query_new_internal compile s language source (length source)) =
           Inl (case kind of
                  TSQueryErrorNodeType \<Rightarrow> NameError ''Invalid node type %s'' [ArgS (identifier_token source offset)]
                | TSQueryErrorField \<Rightarrow> NameError ''Invalid field name %s'' [ArgS (identifier_token source offset)]
                | TSQueryErrorCapture \<Rightarrow> NameError ''Invalid capture name %s'' [ArgS (identifier_token source offset)]
                | _ \<Rightarrow> SyntaxError ''Invalid syntax at offset %u'' [ArgU offset])"
  using assms
  by (simp add: query_new_internal_def ts_query_new_def Let_def word_end_loop_takeWhile c_string_cut
        split: TSQueryError.splits)

lemma example_token: "identifier_token ''(totally_bogus_node) @x'' 1 = ''totally_bogus_node''"
  by (simp add: identifier_token_def is_identifier_char_def iswalnum_def)

theorem query_error_names_token_witness:
  "fst (query_new_internal (\<lambda>l src n. Inl (1, TSQueryErrorNodeType)) empty_store 1
          ''(totally_bogus_node) @x'' (length ''(totally_bogus_node) @x'')) =
     Inl (NameError ''Invalid node type %s'' [ArgS ''totally_bogus_node''])"
  using query_error_names_token [of "\<lambda>l src n. Inl (1, TSQueryErrorNodeType)" 1
          "''(totally_bogus_node) @x''" 1 TSQueryErrorNodeType empty_store]
        example_token
  by simp

subsection \<open>Captures of a query\<close>

lemma parse_captures_args_range:
  "parse_captures_args s [PyNode n, PyTuple [PyLong a, PyLong b], PyTuple [PyLong c, PyLong d]] [] =
     Some (PyNode n, (word_of_int a, word_of_int b), (word_of_int c, word_of_int d))"
  by (simp add: parse_captures_args_def bind_args_def query_captures_keywords_def conv_II_def
        sequence_items_def conv_I_def)

lemma parse_captures_args_node:
  "parse_captures_args s [PyNode n] [] = Some (PyNode n, (0, 0), (0, 0))"
  by (simp add: parse_captures_args_def bind_args_def query_captures_keywords_def)

lemma query_captures_range_ignored:
  "query_captures matcher s q [PyNode n, PyTuple [PyLong a, PyLong b], PyTuple [PyLong c, PyLong d]] [] =
   query_captures matcher s q [PyNode n] []"
  by (simp add: query_captures_def parse_captures_args_range parse_captures_args_node)

lemma example_captures:
  "query_captures example_matcher query_store 7 [PyNode 4] [] =
     Some (Inr (PyList 10),
      query_store
        \<lparr>query_cursor := Some \<lparr>qc_pending = [], qc_range = None\<rparr>,
         lists := (lists query_store)(10 := [Some (PyTuple [PyNode 11, PyUnicode ''expr''])]),
         nodes := (nodes query_store)
           (11 := \<lparr>node_node = \<lparr>tsn_id = Some [0, 2], tsn_tree = 2\<rparr>, node_children = None,
                    node_tree = Some 3\<rparr>),
         next_addr := 12\<rparr>)"
  apply (simp add: query_captures_def parse_captures_args_node ts_query_cursor_new_def
        ts_query_cursor_exec_def PyList_New_def example_matcher_def Let_def
        node_is_instance_def node_addr_def)
  apply (subst captures_loop.simps)
  apply (simp add: ts_query_cursor_next_capture_def node_new_internal_def PyList_GetItem_def
        PyList_Append_def Let_def query_store_def example_store_def empty_store_def)
  apply (subst captures_loop.simps)
  apply (simp add: ts_query_cursor_next_capture_def query_store_def example_store_def
        empty_store_def)
  done

lemma example_in_range:
  "example_matcher (Some 8) (ts_trees query_store) \<lparr>tsn_id = Some [], tsn_tree = 2\<rparr>
     (Some (pt 0 0, pt 0 1)) = []"
  by (simp add: example_matcher_def node_in_range_def query_store_def example_defs point_le_def
        word_le_nat_alt word_less_nat_alt)

text \<open>
  The loop of \<open>captures\<close> ends when the engine has no capture left. While it has one, the
  loop wraps it in a new Node and looks its name up; without a name the call crashes.
\<close>

lemma captures_loop_done:
  "captures_left s = 0 \<Longrightarrow> captures_loop s self node result = Some s"
  by (subst captures_loop.simps)
     (auto simp: ts_query_cursor_next_capture_def captures_left_def split: option.splits list.splits)

lemma captures_loop_step:
  assumes "query_cursor s = Some qc" and "qc_pending qc = c # cs"
  shows "captures_loop s self node result =
     (case (case query_capture_names (queries s self) of
              None \<Rightarrow> None
            | Some names \<Rightarrow> PyList_GetItem s names (cap_index c)) of
        None \<Rightarrow> None
      | Some capture_name \<Rightarrow>
          captures_loop
            (s\<lparr>query_cursor := Some (qc\<lparr>qc_pending := cs\<rparr>),
               nodes := (nodes s)(next_addr s :=
                 \<lparr>node_node = cap_node c, node_children = None, node_tree = node_tree (nodes s node)\<rparr>),
               next_addr := Suc (next_addr s),
               lists := (lists s)(result := lists s result @ [Some (PyTuple [PyNode (next_addr s), capture_name])])\<rparr>)
            self node result)"
  using assms
  by (subst captures_loop.simps)
     (simp add: ts_query_cursor_next_capture_def node_new_internal_def PyList_GetItem_def
        PyList_Append_def Let_def split: option.splits)

lemma captures_loop_crash:
  assumes "query_cursor s = Some qc" and "qc_pending qc = c # cs"
    and "query_capture_names (queries s self) = Some names"
    and "length (lists s names) \<le> cap_index c"
  shows "captures_loop s self node result = None"
  using assms(3,4) by (simp add: captures_loop_step [OF assms(1,2)] PyList_GetItem_def)

text \<open>
  Every Node that a call of \<open>captures\<close> allocates points at the Tree of the input
  node (the input node being an allocated object).
\<close>

lemma captures_loop_same_tree:
  assumes "n = captures_left s" and "node < next_addr s"
    and "captures_loop s self node result = Some s'"
  shows "next_addr s \<le> next_addr s' \<and>
         (\<forall>a. a < next_addr s \<longrightarrow> nodes s' a = nodes s a) \<and>
         (\<forall>a. next_addr s \<le> a \<and> a < next_addr s' \<longrightarrow>
            node_tree (nodes s' a) = node_tree (nodes s node))"
  using assms
proof (induction n arbitrary: s)
  case 0
  then show ?case by (auto simp: captures_loop_done)
next
  case (Suc n)
  then obtain qc c cs where qc: "query_cursor s = Some qc" "qc_pending qc = c # cs" "length cs = n"
    by (auto simp: captures_left_def split: option.splits) (metis length_Suc_conv)
  let ?new = "\<lparr>node_node = cap_node c, node_children = None, node_tree = node_tree (nodes s node)\<rparr>"
  show ?case
  proof (cases "case query_capture_names (queries s self) of
              None \<Rightarrow> None
            | Some names \<Rightarrow> PyList_GetItem s names (cap_index c)")
    case None
    then show ?thesis
      using Suc.prems(3) by (simp add: captures_loop_step [OF qc(1,2)])
  next
    case (Some capture_name)
    let ?s3 = "s\<lparr>query_cursor := Some (qc\<lparr>qc_pending := cs\<rparr>),
               nodes := (nodes s)(next_addr s := ?new),
               next_addr := Suc (next_addr s),
               lists := (lists s)(result := lists s result @ [Some (PyTuple [PyNode (next_addr s), capture_name])])\<rparr>"
    have eq: "captures_loop ?s3 self node result = Some s'"
      using Some Suc.prems(3) by (simp add: captures_loop_step [OF qc(1,2)])
    have ih: "next_addr ?s3 \<le> next_addr s' \<and>
         (\<forall>a. a < next_addr ?s3 \<longrightarrow> nodes s' a = nodes ?s3 a) \<and>
         (\<forall>a. next_addr ?s3 \<le> a \<and> a < next_addr s' \<longrightarrow>
            node_tree (nodes s' a) = node_tree (nodes ?s3 node))"
    proof (rule Suc.IH)
      show "n = captures_left ?s3" using qc by (simp add: captures_left_def)
      show "node < next_addr ?s3" using Suc.prems(2) by simp
      show "captures_loop ?s3 self node result = Some s'" by (rule eq)
    qed
    have node: "nodes ?s3 node = nodes s node"
      using Suc.prems(2) by simp
    show ?thesis
    proof (intro conjI allI impI)
      show "next_addr s \<le> next_addr s'"
        using ih by simp
    next
      fix a assume "a < next_addr s"
      then show "nodes s' a = nodes s a"
        using ih by simp
    next
      fix a
      assume a: "next_addr s \<le> a \<and> a < next_addr s'"
      show "node_tree (nodes s' a) = node_tree (nodes s node)"
      proof (cases "a = next_addr s")
        case True
        then have "nodes s' a = nodes ?s3 a"
          using ih by simp
        then show ?thesis using True by simp
      next
        case False
        then have "next_addr ?s3 \<le> a" using a by simp
        then show ?thesis using ih a node by simp
      qed
    qed
  qed
qed

lemma query_captures_same_tree:
  assumes "n < next_addr s" and "query_captures matcher s q [PyNode n] [] = Some (r, s')"
  shows "\<forall>a. next_addr s < a \<and> a < next_addr s' \<longrightarrow>
            node_tree (nodes s' a) = node_tree (nodes s n)"
proof -
  let ?s1 = "if query_cursor s = None then s\<lparr>query_cursor := Some ts_query_cursor_new\<rparr> else s"
  let ?s2 = "ts_query_cursor_exec matcher ?s1 (query_query (queries ?s1 q)) (node_node (nodes ?s1 n))"
  let ?s3 = "?s2\<lparr>lists := (lists ?s2)(next_addr ?s2 := []), next_addr := Suc (next_addr ?s2)\<rparr>"
  have s2: "next_addr ?s2 = next_addr s" "nodes ?s2 = nodes s"
    by (simp_all add: ts_query_cursor_exec_def split: option.splits)
  have call: "query_captures matcher s q [PyNode n] [] =
      (case captures_loop ?s3 q n (next_addr ?s2) of
         None \<Rightarrow> None
       | Some s4 \<Rightarrow> Some (Inr (PyList (next_addr ?s2)), s4))"
    by (simp add: query_captures_def parse_captures_args_node node_is_instance_def node_addr_def
          PyList_New_def Let_def)
  have run: "captures_loop ?s3 q n (next_addr ?s2) = Some s'"
    using assms(2) unfolding call
    by (cases "captures_loop ?s3 q n (next_addr ?s2)") simp_all
  have lt: "n < next_addr ?s3" using assms(1) s2 by simp
  note inv = captures_loop_same_tree [OF refl lt run]
  show ?thesis
    using inv s2 by simp
qed

text \<open>
  C5 (the code at its failing input). The point range given to \<open>captures\<close> never
  reaches the engine: a call with a range returns what the call without one returns.
  On the example, \<open>captures(root, (0, 0), (0, 1))\<close> yields the binary expression, which
  spans columns 4 to 9 and so does not lie within the range; a matcher told of the range
  reports nothing. The yielded Node does belong to the Tree of the input node.
\<close>

theorem captures_ignore_point_range:
  "query_captures matcher s q [PyNode n, PyTuple [PyLong a, PyLong b], PyTuple [PyLong c, PyLong d]] [] =
     query_captures matcher s q [PyNode n] [] \<and>
   map_option fst (query_captures example_matcher query_store 7
          [PyNode 4, PyTuple [PyLong 0, PyLong 0], PyTuple [PyLong 0, PyLong 1]] []) =
     Some (Inr (PyList 10)) \<and>
   map_option (\<lambda>r. lists (snd r) 10) (query_captures example_matcher query_store 7
          [PyNode 4, PyTuple [PyLong 0, PyLong 0], PyTuple [PyLong 0, PyLong 1]] []) =
     Some [Some (PyTuple [PyNode 11, PyUnicode ''expr''])] \<and>
   map_option (\<lambda>r. nodes (snd r) 11) (query_captures example_matcher query_store 7
          [PyNode 4, PyTuple [PyLong 0, PyLong 0], PyTuple [PyLong 0, PyLong 1]] []) =
     Some \<lparr>node_node = \<lparr>tsn_id = Some [0, 2], tsn_tree = 2\<rparr>, node_children = None,
           node_tree = node_tree (nodes query_store 4)\<rparr> \<and>
   \<not> node_in_range (ts_trees query_store) \<lparr>tsn_id = Some [0, 2], tsn_tree = 2\<rparr> (pt 0 0) (pt 0 1) \<and>
   example_matcher (Some 8) (ts_trees query_store) \<lparr>tsn_id = Some [], tsn_tree = 2\<rparr>
     (Some (pt 0 0, pt 0 1)) = []"
proof -
  have "node_tree (nodes query_store 4) = Some 3"
    by (simp add: query_store_def example_store_def empty_store_def)
  moreover have "\<not> node_in_range (ts_trees query_store) \<lparr>tsn_id = Some [0, 2], tsn_tree = 2\<rparr> (pt 0 0) (pt 0 1)"
    by (simp add: node_in_range_def query_store_def example_defs point_le_def
          word_le_nat_alt word_less_nat_alt)
  ultimately show ?thesis
    by (simp add: query_captures_range_ignored example_captures example_in_range del: One_nat_def)
qed

subsection \<open>Children of a node\<close>

lemma child_count_cong:
  "ts_trees s' = ts_trees s \<Longrightarrow> ts_node_child_count s' n = ts_node_child_count s n"
  by (simp add: ts_node_child_count_def ts_node_subtree_def cong: option.case_cong)

lemma children_loop_unfold:
  assumes cursor: "default_cursor s = \<lparr>tc_tree = tr, tc_root = Some p, tc_stack = [i]\<rparr>"
    and count: "ts_node_child_count s \<lparr>tsn_id = Some p, tsn_tree = tr\<rparr> = k"
    and len: "i < length (lists s result)"
  shows "children_loop s tree result i =
     (if Suc i < k then
        children_loop
          (s\<lparr>nodes := (nodes s)(next_addr s :=
                \<lparr>node_node = \<lparr>tsn_id = Some (p @ [i]), tsn_tree = tr\<rparr>, node_children = None,
                 node_tree = tree\<rparr>),
             next_addr := Suc (next_addr s),
             lists := (lists s)(result := (lists s result)[i := Some (PyNode (next_addr s))]),
             default_cursor := \<lparr>tc_tree = tr, tc_root = Some p, tc_stack = [Suc i]\<rparr>\<rparr>)
          tree result (Suc i)
      else
        s\<lparr>nodes := (nodes s)(next_addr s :=
              \<lparr>node_node = \<lparr>tsn_id = Some (p @ [i]), tsn_tree = tr\<rparr>, node_children = None,
               node_tree = tree\<rparr>),
           next_addr := Suc (next_addr s),
           lists := (lists s)(result := (lists s result)[i := Some (PyNode (next_addr s))])\<rparr>)"
proof -
  let ?n = "\<lparr>node_node = \<lparr>tsn_id = Some (p @ [i]), tsn_tree = tr\<rparr>, node_children = None,
               node_tree = tree\<rparr>"
  let ?s1 = "s\<lparr>nodes := (nodes s)(next_addr s := ?n), next_addr := Suc (next_addr s)\<rparr>"
  let ?s2 = "?s1\<lparr>lists := (lists s)(result := (lists s result)[i := Some (PyNode (next_addr s))])\<rparr>"
  have cur: "ts_tree_cursor_current_node (default_cursor s) = \<lparr>tsn_id = Some (p @ [i]), tsn_tree = tr\<rparr>"
    by (simp add: cursor ts_tree_cursor_current_node_def)
  have new: "node_new_internal s \<lparr>tsn_id = Some (p @ [i]), tsn_tree = tr\<rparr> tree = (next_addr s, ?s1)"
    by (simp add: node_new_internal_def Let_def)
  have set: "PyList_SetItem ?s1 result i (PyNode (next_addr s)) = ?s2"
    using len by (simp add: PyList_SetItem_def)
  have cnt: "ts_node_child_count ?s2 \<lparr>tsn_id = Some p, tsn_tree = tr\<rparr> = k"
    using count child_count_cong [of ?s2 s] by simp
  have dc: "default_cursor ?s2 = \<lparr>tc_tree = tr, tc_root = Some p, tc_stack = [i]\<rparr>"
    by (simp add: cursor)
  have nxt: "ts_tree_cursor_goto_next_sibling ?s2 \<lparr>tc_tree = tr, tc_root = Some p, tc_stack = [i]\<rparr> =
      (if Suc i < k then (True, \<lparr>tc_tree = tr, tc_root = Some p, tc_stack = [Suc i]\<rparr>)
       else (False, \<lparr>tc_tree = tr, tc_root = Some p, tc_stack = [i]\<rparr>))"
    unfolding ts_tree_cursor_goto_next_sibling_def ts_tree_cursor_current_node_def
    using cnt by simp
  have same: "?s2\<lparr>default_cursor := \<lparr>tc_tree = tr, tc_root = Some p, tc_stack = [i]\<rparr>\<rparr> = ?s2"
    using cursor by simp
  show ?thesis
    apply (subst children_loop.simps)
    apply (simp only: cur new Let_def prod.case set dc nxt)
    apply (cases "Suc i < k")
     apply (simp_all only: if_True if_False prod.case same)
    done
qed


lemma children_loop_result:
  assumes "n = k - i" and "i < k"
    and "default_cursor s = \<lparr>tc_tree = tr, tc_root = Some p, tc_stack = [i]\<rparr>"
    and "ts_node_child_count s \<lparr>tsn_id = Some p, tsn_tree = tr\<rparr> = k"
    and "length (lists s result) = k"
  shows "next_addr (children_loop s tree result i) = next_addr s + n \<and>
         lists (children_loop s tree result i) result =
           take i (lists s result) @ map (\<lambda>j. Some (PyNode (next_addr s + j))) [0..<n] \<and>
         (\<forall>l. l \<noteq> result \<longrightarrow> lists (children_loop s tree result i) l = lists s l) \<and>
         (\<forall>a. a < next_addr s \<longrightarrow> nodes (children_loop s tree result i) a = nodes s a) \<and>
         (\<forall>j. j < n \<longrightarrow> nodes (children_loop s tree result i) (next_addr s + j) =
            \<lparr>node_node = \<lparr>tsn_id = Some (p @ [i + j]), tsn_tree = tr\<rparr>, node_children = None,
             node_tree = tree\<rparr>) \<and>
         trees (children_loop s tree result i) = trees s \<and>
         ts_trees (children_loop s tree result i) = ts_trees s \<and>
         cursors (children_loop s tree result i) = cursors s"
  using assms
proof (induction n arbitrary: s i)
  case 0
  then show ?case by simp
next
  case (Suc m)
  let ?a = "next_addr s"
  let ?n = "\<lparr>node_node = \<lparr>tsn_id = Some (p @ [i]), tsn_tree = tr\<rparr>, node_children = None,
               node_tree = tree\<rparr>"
  let ?s2 = "s\<lparr>nodes := (nodes s)(?a := ?n), next_addr := Suc ?a,
               lists := (lists s)(result := (lists s result)[i := Some (PyNode ?a)])\<rparr>"
  let ?s3 = "s\<lparr>nodes := (nodes s)(?a := ?n), next_addr := Suc ?a,
               lists := (lists s)(result := (lists s result)[i := Some (PyNode ?a)]),
               default_cursor := \<lparr>tc_tree = tr, tc_root = Some p, tc_stack = [Suc i]\<rparr>\<rparr>"
  have len: "i < length (lists s result)"
    using Suc.prems by simp
  note unfold = children_loop_unfold [OF Suc.prems(3) Suc.prems(4) len, of tree]
  have tk: "take i (lists s result) @ [Some (PyNode ?a)] = take (Suc i) ((lists s result)[i := Some (PyNode ?a)])"
    using len by (simp add: take_Suc_conv_app_nth)
  show ?case
  proof (cases "Suc i < k")
    case False
    then have m: "m = 0" using Suc.prems by simp
    have "children_loop s tree result i = ?s2"
      using unfold False by simp
    then show ?thesis
      using len Suc.prems(5) False by (simp add: m upd_conv_take_nth_drop)
  next
    case True
    have eq: "children_loop s tree result i = children_loop ?s3 tree result (Suc i)"
      using unfold True by simp
    have cnt: "ts_node_child_count ?s3 \<lparr>tsn_id = Some p, tsn_tree = tr\<rparr> = k"
      using Suc.prems(4) child_count_cong [of ?s3 s] by simp
    have ih: "next_addr (children_loop ?s3 tree result (Suc i)) = next_addr ?s3 + m \<and>
         lists (children_loop ?s3 tree result (Suc i)) result =
           take (Suc i) (lists ?s3 result) @ map (\<lambda>j. Some (PyNode (next_addr ?s3 + j))) [0..<m] \<and>
         (\<forall>l. l \<noteq> result \<longrightarrow> lists (children_loop ?s3 tree result (Suc i)) l = lists ?s3 l) \<and>
         (\<forall>a. a < next_addr ?s3 \<longrightarrow> nodes (children_loop ?s3 tree result (Suc i)) a = nodes ?s3 a) \<and>
         (\<forall>j. j < m \<longrightarrow> nodes (children_loop ?s3 tree result (Suc i)) (next_addr ?s3 + j) =
            \<lparr>node_node = \<lparr>tsn_id = Some (p @ [Suc i + j]), tsn_tree = tr\<rparr>, node_children = None,
             node_tree = tree\<rparr>) \<and>
         trees (children_loop ?s3 tree result (Suc i)) = trees ?s3 \<and>
         ts_trees (children_loop ?s3 tree result (Suc i)) = ts_trees ?s3 \<and>
         cursors (children_loop ?s3 tree result (Suc i)) = cursors ?s3"
    proof (rule Suc.IH)
      show "m = k - Suc i" using Suc.prems by simp
      show "Suc i < k" by (rule True)
      show "default_cursor ?s3 = \<lparr>tc_tree = tr, tc_root = Some p, tc_stack = [Suc i]\<rparr>" by simp
      show "ts_node_child_count ?s3 \<lparr>tsn_id = Some p, tsn_tree = tr\<rparr> = k" by (rule cnt)
      show "length (lists ?s3 result) = k" using Suc.prems by simp
    qed
    have nodes_new: "\<forall>j. j < Suc m \<longrightarrow> nodes (children_loop ?s3 tree result (Suc i)) (?a + j) =
            \<lparr>node_node = \<lparr>tsn_id = Some (p @ [i + j]), tsn_tree = tr\<rparr>, node_children = None,
             node_tree = tree\<rparr>"
    proof (intro allI impI)
      fix j assume j: "j < Suc m"
      show "nodes (children_loop ?s3 tree result (Suc i)) (?a + j) =
            \<lparr>node_node = \<lparr>tsn_id = Some (p @ [i + j]), tsn_tree = tr\<rparr>, node_children = None,
             node_tree = tree\<rparr>"
      proof (cases j)
        case 0
        then show ?thesis using ih by simp
      next
        case (Suc j')
        then have "j' < m" using j by simp
        then show ?thesis using ih Suc by simp
      qed
    qed
    have lst: "map (\<lambda>j. Some (PyNode (?a + j))) [0..<Suc m] =
        Some (PyNode ?a) # map (\<lambda>j. Some (PyNode (Suc ?a + j))) [0..<m]"
      by (simp add: upt_conv_Cons map_Suc_upt [symmetric] del: upt_Suc)
    show ?thesis
      unfolding eq
      using ih nodes_new tk [symmetric] lst by simp
  qed
qed


lemma subtree_at_snoc:
  "subtree_at r (p @ [j]) =
     (case subtree_at r p of
        None \<Rightarrow> None
      | Some t \<Rightarrow> if j < length (sub_children t) then Some (sub_children t ! j) else None)"
  by (induction p arbitrary: r) simp_all

lemma node_subtree_child:
  assumes "ts_node_subtree s \<lparr>tsn_id = Some p, tsn_tree = tr\<rparr> = Some t"
    and "ts_trees s' = ts_trees s" and "j < length (sub_children t)"
  shows "ts_node_subtree s' \<lparr>tsn_id = Some (p @ [j]), tsn_tree = tr\<rparr> = Some (sub_children t ! j)"
  using assms
  by (auto simp: ts_node_subtree_def subtree_at_snoc split: option.splits)

lemma node_get_children_run:
  assumes self: "self < next_addr s" and fresh: "node_children (nodes s self) = None"
    and node: "node_node (nodes s self) = \<lparr>tsn_id = Some p, tsn_tree = tr\<rparr>"
    and sub: "ts_node_subtree s (node_node (nodes s self)) = Some t"
    and k: "k = length (sub_children t)"
    and s': "s' = snd (node_get_children s self)"
  shows "fst (node_get_children s self) = PyList (next_addr s) \<and>
         lists s' (next_addr s) = map (\<lambda>j. Some (PyNode (Suc (next_addr s) + j))) [0..<k] \<and>
         (\<forall>j. j < k \<longrightarrow> nodes s' (Suc (next_addr s) + j) =
            \<lparr>node_node = \<lparr>tsn_id = Some (p @ [j]), tsn_tree = tr\<rparr>, node_children = None,
             node_tree = node_tree (nodes s self)\<rparr>) \<and>
         nodes s' self = (nodes s self)\<lparr>node_children := Some (next_addr s)\<rparr> \<and>
         ts_trees s' = ts_trees s \<and> trees s' = trees s \<and> next_addr s' = Suc (next_addr s) + k"
proof -
  let ?l = "next_addr s"
  let ?s1 = "s\<lparr>lists := (lists s)(?l := replicate k None), next_addr := Suc ?l\<rparr>"
  let ?S = "?s1\<lparr>default_cursor := \<lparr>tc_tree = tr, tc_root = Some p, tc_stack = [0]\<rparr>\<rparr>"
  let ?tree = "node_tree (nodes s self)"
  define F where "F = (if 0 < k then children_loop ?S ?tree ?l 0 else ?s1)"
  have cnt: "ts_node_child_count s \<lparr>tsn_id = Some p, tsn_tree = tr\<rparr> = k"
    using sub node k by (simp add: ts_node_child_count_def)
  have cnt1: "ts_node_child_count ?s1 \<lparr>tsn_id = Some p, tsn_tree = tr\<rparr> = k"
    using cnt child_count_cong [of ?s1 s] by simp
  have cntS: "ts_node_child_count ?S \<lparr>tsn_id = Some p, tsn_tree = tr\<rparr> = k"
    using cnt child_count_cong [of ?S s] by simp
  have new: "PyList_New s k = (?l, ?s1)"
    by (simp add: PyList_New_def)
  have first: "0 < k \<Longrightarrow>
      ts_tree_cursor_goto_first_child ?s1 (ts_tree_cursor_reset (default_cursor ?s1) \<lparr>tsn_id = Some p, tsn_tree = tr\<rparr>)
        = (True, \<lparr>tc_tree = tr, tc_root = Some p, tc_stack = [0]\<rparr>)"
    unfolding ts_tree_cursor_goto_first_child_def ts_tree_cursor_reset_def ts_tree_cursor_current_node_def
    using cnt1 by simp
  have run: "node_get_children s self =
      (PyList ?l, F\<lparr>nodes := (nodes F)(self := (nodes F self)\<lparr>node_children := Some ?l\<rparr>)\<rparr>)"
  proof (cases "0 < k")
    case True
    show ?thesis
      unfolding node_get_children_def F_def
      using True first
      by (simp add: fresh node cnt new Let_def)
  next
    case False
    show ?thesis
      unfolding node_get_children_def F_def
      using False
      by (simp add: fresh node cnt PyList_New_def Let_def)
  qed
  have F: "next_addr F = Suc ?l + k \<and>
         lists F ?l = map (\<lambda>j. Some (PyNode (Suc ?l + j))) [0..<k] \<and>
         (\<forall>a. a < Suc ?l \<longrightarrow> nodes F a = nodes s a) \<and>
         (\<forall>j. j < k \<longrightarrow> nodes F (Suc ?l + j) =
            \<lparr>node_node = \<lparr>tsn_id = Some (p @ [j]), tsn_tree = tr\<rparr>, node_children = None,
             node_tree = ?tree\<rparr>) \<and>
         trees F = trees s \<and> ts_trees F = ts_trees s"
  proof (cases "0 < k")
    case False
    then show ?thesis by (simp add: F_def)
  next
    case True
    have "next_addr (children_loop ?S ?tree ?l 0) = next_addr ?S + k \<and>
         lists (children_loop ?S ?tree ?l 0) ?l =
           take 0 (lists ?S ?l) @ map (\<lambda>j. Some (PyNode (next_addr ?S + j))) [0..<k] \<and>
         (\<forall>l. l \<noteq> ?l \<longrightarrow> lists (children_loop ?S ?tree ?l 0) l = lists ?S l) \<and>
         (\<forall>a. a < next_addr ?S \<longrightarrow> nodes (children_loop ?S ?tree ?l 0) a = nodes ?S a) \<and>
         (\<forall>j. j < k \<longrightarrow> nodes (children_loop ?S ?tree ?l 0) (next_addr ?S + j) =
            \<lparr>node_node = \<lparr>tsn_id = Some (p @ [0 + j]), tsn_tree = tr\<rparr>, node_children = None,
             node_tree = ?tree\<rparr>) \<and>
         trees (children_loop ?S ?tree ?l 0) = trees ?S \<and>
         ts_trees (children_loop ?S ?tree ?l 0) = ts_trees ?S \<and>
         cursors (children_loop ?S ?tree ?l 0) = cursors ?S"
    proof (rule children_loop_result)
      show "k = k - 0" by simp
      show "0 < k" by (rule True)
      show "default_cursor ?S = \<lparr>tc_tree = tr, tc_root = Some p, tc_stack = [0]\<rparr>" by simp
      show "ts_node_child_count ?S \<lparr>tsn_id = Some p, tsn_tree = tr\<rparr> = k" by (rule cntS)
      show "length (lists ?S ?l) = k" by simp
    qed
    then show ?thesis using True by (simp add: F_def)
  qed
  have s'eq: "s' = F\<lparr>nodes := (nodes F)(self := (nodes F self)\<lparr>node_children := Some ?l\<rparr>)\<rparr>"
    using run s' by simp
  have neq: "\<And>j. self \<noteq> Suc (?l + j)" "\<And>j. Suc (?l + j) \<noteq> self"
    using self by simp_all
  have selfF: "nodes F self = nodes s self"
    using F self by simp
  show ?thesis
    unfolding s'eq
    using F run selfF neq by simp
qed


text \<open>
  C2. Let a Node denote a position whose element has \<open>k\<close> children, and let its child
  list not be materialised yet. Then \<open>child_count\<close> is \<open>k\<close> (read from the engine, no
  list needed); \<open>children\<close> returns a new list of \<open>k\<close> new Nodes, the \<open>j\<close>-th of which
  denotes the \<open>j\<close>-th child of the position and belongs to the same Tree; the list is
  empty for a childless node; the list is stored on the Node, and a second access
  returns the same list and changes nothing; \<open>child_count\<close> is still \<open>k\<close> afterwards.
\<close>

theorem children_materialised_once:
  assumes "self < next_addr s" and "node_children (nodes s self) = None"
    and "node_node (nodes s self) = \<lparr>tsn_id = Some p, tsn_tree = tr\<rparr>"
    and "ts_node_subtree s (node_node (nodes s self)) = Some t"
  shows "node_get_child_count s self = PyLong (int (length (sub_children t))) \<and>
         fst (node_get_children s self) = PyList (next_addr s) \<and>
         lists (snd (node_get_children s self)) (next_addr s) =
           map (\<lambda>j. Some (PyNode (Suc (next_addr s) + j))) [0..<length (sub_children t)] \<and>
         (j < length (sub_children t) \<longrightarrow>
            nodes (snd (node_get_children s self)) (Suc (next_addr s) + j) =
              \<lparr>node_node = \<lparr>tsn_id = Some (p @ [j]), tsn_tree = tr\<rparr>, node_children = None,
               node_tree = node_tree (nodes s self)\<rparr> \<and>
            ts_node_subtree (snd (node_get_children s self)) \<lparr>tsn_id = Some (p @ [j]), tsn_tree = tr\<rparr> =
              Some (sub_children t ! j)) \<and>
         (sub_children t = [] \<longrightarrow> lists (snd (node_get_children s self)) (next_addr s) = []) \<and>
         node_children (nodes (snd (node_get_children s self)) self) = Some (next_addr s) \<and>
         node_get_children (snd (node_get_children s self)) self =
           (PyList (next_addr s), snd (node_get_children s self)) \<and>
         node_get_child_count (snd (node_get_children s self)) self =
           PyLong (int (length (sub_children t)))"
proof -
  define s' where "s' = snd (node_get_children s self)"
  note run = node_get_children_run [OF assms refl s'_def]
  have sub: "ts_node_subtree s \<lparr>tsn_id = Some p, tsn_tree = tr\<rparr> = Some t"
    using assms(3,4) by simp
  have cnt: "ts_node_child_count s (node_node (nodes s self)) = length (sub_children t)"
    using assms(4) by (simp add: ts_node_child_count_def)
  have cnt': "ts_node_child_count s' (node_node (nodes s' self)) = length (sub_children t)"
    using cnt run child_count_cong [of s' s "node_node (nodes s self)"] by simp
  have child: "j < length (sub_children t) \<Longrightarrow>
      ts_node_subtree s' \<lparr>tsn_id = Some (p @ [j]), tsn_tree = tr\<rparr> = Some (sub_children t ! j)"
    using node_subtree_child [OF sub, of s' j] run by simp
  have again: "node_get_children s' self = (PyList (next_addr s), s')"
    using run by (simp add: node_get_children_def)
  show ?thesis
    unfolding s'_def [symmetric]
    using run cnt cnt' child again
    by (simp add: node_get_child_count_def)
qed

lemma example_children_facts:
  "5 < next_addr example_store \<and> node_children (nodes example_store 5) = None \<and>
   node_node (nodes example_store 5) = \<lparr>tsn_id = Some [0, 2], tsn_tree = 2\<rparr> \<and>
   ts_node_subtree example_store (node_node (nodes example_store 5)) =
     Some (Subtree ''binary_expression'' True 4 9 (pt 0 4) (pt 0 9)
             [token ''integer'' True 4 5, token ''+'' False 6 7, token ''integer'' True 8 9]) \<and>
   next_addr example_store = 7 \<and> node_tree (nodes example_store 5) = Some 3"
  by (simp add: example_store_def empty_store_def example_tree_def ts_node_subtree_def)

lemma leaf_children_facts:
  "5 < next_addr leaf_store \<and> node_children (nodes leaf_store 5) = None \<and>
   node_node (nodes leaf_store 5) = \<lparr>tsn_id = Some [0, 0], tsn_tree = 2\<rparr> \<and>
   ts_node_subtree leaf_store (node_node (nodes leaf_store 5)) = Some (token ''identifier'' True 0 1) \<and>
   next_addr leaf_store = 7 \<and> sub_children (token ''identifier'' True 0 1) = []"
  by (simp add: leaf_store_def example_store_def empty_store_def example_tree_def ts_node_subtree_def token_def)

theorem children_materialised_once_witness:
  "node_get_child_count example_store 5 = PyLong 3 \<and>
   fst (node_get_children example_store 5) = PyList 7 \<and>
   lists (snd (node_get_children example_store 5)) 7 = [Some (PyNode 8), Some (PyNode 9), Some (PyNode 10)] \<and>
   nodes (snd (node_get_children example_store 5)) 10 =
     \<lparr>node_node = \<lparr>tsn_id = Some [0, 2, 2], tsn_tree = 2\<rparr>, node_children = None, node_tree = Some 3\<rparr> \<and>
   ts_node_subtree (snd (node_get_children example_store 5)) \<lparr>tsn_id = Some [0, 2, 2], tsn_tree = 2\<rparr> =
     Some (token ''integer'' True 8 9) \<and>
   node_get_children (snd (node_get_children example_store 5)) 5 =
     (PyList 7, snd (node_get_children example_store 5)) \<and>
   node_get_child_count leaf_store 5 = PyLong 0 \<and>
   lists (snd (node_get_children leaf_store 5)) 7 = []"
proof -
  have e: "5 < next_addr example_store" "node_children (nodes example_store 5) = None"
    "node_node (nodes example_store 5) = \<lparr>tsn_id = Some [0, 2], tsn_tree = 2\<rparr>"
    "ts_node_subtree example_store (node_node (nodes example_store 5)) =
       Some (Subtree ''binary_expression'' True 4 9 (pt 0 4) (pt 0 9)
               [token ''integer'' True 4 5, token ''+'' False 6 7, token ''integer'' True 8 9])"
    using example_children_facts by blast+
  have l: "5 < next_addr leaf_store" "node_children (nodes leaf_store 5) = None"
    "node_node (nodes leaf_store 5) = \<lparr>tsn_id = Some [0, 0], tsn_tree = 2\<rparr>"
    "ts_node_subtree leaf_store (node_node (nodes leaf_store 5)) = Some (token ''identifier'' True 0 1)"
    using leaf_children_facts by blast+
  show ?thesis
    using children_materialised_once [OF e, of 2] children_materialised_once [OF l, of 0]
      example_children_facts leaf_children_facts
    by (simp add: upt_rec)
qed

end
